theory Spec2Isabelle
  imports Complex_Main
begin

section \<open>JavaScript values of the request\<close>

text \<open>
  A scalar field of \<^verbatim>\<open>req.body\<close> or \<^verbatim>\<open>req.query\<close> is a string or
  \<^verbatim>\<open>undefined\<close>: \<open>None\<close> is \<^verbatim>\<open>undefined\<close>. A string is truthy exactly
  when it is not empty, so the string \<^verbatim>\<open>"0"\<close> is truthy.
\<close>

type_synonym field = "string option"

definition truthy :: "field \<Rightarrow> bool" where
  "truthy v = (case v of None \<Rightarrow> False | Some s \<Rightarrow> s \<noteq> [])"

text \<open>\<^verbatim>\<open>!v\<close>\<close>

definition falsy :: "field \<Rightarrow> bool" where
  "falsy v = (\<not> truthy v)"

text \<open>\<^verbatim>\<open>v || null\<close>\<close>

definition or_null :: "field \<Rightarrow> string option" where
  "or_null v = (if truthy v then v else None)"

text \<open>\<^verbatim>\<open>v || ''\<close>\<close>

definition or_empty :: "field \<Rightarrow> string" where
  "or_empty v = (case v of None \<Rightarrow> [] | Some s \<Rightarrow> s)"

text \<open>
  The \<^verbatim>\<open>marketingstrategy\<close> field of \<^verbatim>\<open>index.js\<close> is tested with
  \<^verbatim>\<open>Array.isArray\<close>: it is a string, an array of strings (a repeated form field) or
  \<^verbatim>\<open>undefined\<close>. Every array is truthy.
\<close>

datatype jsval = Undefined | Str string | Arr "string list"

definition truthy_val :: "jsval \<Rightarrow> bool" where
  "truthy_val v = (case v of Undefined \<Rightarrow> False | Str s \<Rightarrow> s \<noteq> [] | Arr a \<Rightarrow> True)"

subsection \<open>Numbers\<close>

text \<open>
  A JavaScript number is modelled by its exact value: a rational, one of the two
  infinities, or NaN. Rounding to a binary double is outside the model. The store orders
  the same values with NaN above everything else and equal to itself.
\<close>

datatype number = NegInfinity | Num rat | Infinity | NaN

fun number_le :: "number \<Rightarrow> number \<Rightarrow> bool" where
  "number_le NegInfinity y = True"
| "number_le (Num a) NegInfinity = False"
| "number_le (Num a) (Num b) = (a \<le> b)"
| "number_le (Num a) Infinity = True"
| "number_le (Num a) NaN = True"
| "number_le Infinity NegInfinity = False"
| "number_le Infinity (Num b) = False"
| "number_le Infinity Infinity = True"
| "number_le Infinity NaN = True"
| "number_le NaN NaN = True"
| "number_le NaN y = False"

text \<open>Character codes and digit values are computed in \<open>int\<close>.\<close>

definition is_digit :: "char \<Rightarrow> bool" where
  "is_digit c = (48 \<le> (of_char c :: int) \<and> (of_char c :: int) \<le> 57)"

definition is_space :: "char \<Rightarrow> bool" where
  "is_space c = ((of_char c :: int) = 32 \<or> (9 \<le> (of_char c :: int) \<and> (of_char c :: int) \<le> 13))"

definition digit_val :: "char \<Rightarrow> int" where
  "digit_val c = of_char c - 48"

definition dec_val :: "string \<Rightarrow> int" where
  "dec_val ds = foldl (\<lambda>a c. 10 * a + digit_val c) 0 ds"

definition is_hex_digit :: "char \<Rightarrow> bool" where
  "is_hex_digit c = (is_digit c
     \<or> (65 \<le> (of_char c :: int) \<and> (of_char c :: int) \<le> 70)
     \<or> (97 \<le> (of_char c :: int) \<and> (of_char c :: int) \<le> 102))"

definition hex_digit_val :: "char \<Rightarrow> int" where
  "hex_digit_val c = (if is_digit c then of_char c - 48
     else if (of_char c :: int) \<le> 70 then of_char c - 55 else of_char c - 87)"

definition hex_val :: "string \<Rightarrow> int" where
  "hex_val ds = foldl (\<lambda>a c. 16 * a + hex_digit_val c) 0 ds"

text \<open>An optional sign: whether it is a minus, and the rest of the string.\<close>

fun take_sign :: "string \<Rightarrow> bool \<times> string" where
  "take_sign [] = (False, [])"
| "take_sign (c # cs) =
     (if c = CHR ''-'' then (True, cs) else if c = CHR ''+'' then (False, cs) else (False, c # cs))"

text \<open>
  \<^verbatim>\<open>parseInt(s)\<close> with no radix: leading white space is skipped, a sign is read, a
  prefix \<^verbatim>\<open>0x\<close> or \<^verbatim>\<open>0X\<close> selects radix 16, and the longest run of digits is the
  value; with no digit the result is NaN, which is \<open>None\<close> here.
\<close>

definition parseInt :: "string \<Rightarrow> int option" where
  "parseInt s =
     (let (neg, r) = take_sign (dropWhile is_space s);
          hex = (take 2 r = ''0x'' \<or> take 2 r = ''0X'');
          z = (if hex then takeWhile is_hex_digit (drop 2 r) else takeWhile is_digit r);
          v = (if hex then hex_val z else dec_val z)
      in if z = [] then None else Some (if neg then - v else v))"

text \<open>
  The exponent part of a decimal literal: \<^verbatim>\<open>e\<close> or \<^verbatim>\<open>E\<close>, an optional sign and
  at least one digit; anything else is no exponent.
\<close>

definition exponent :: "string \<Rightarrow> int" where
  "exponent r =
     (case r of
        [] \<Rightarrow> 0
      | c # cs \<Rightarrow>
          if c = CHR ''e'' \<or> c = CHR ''E'' then
            (let (neg, ds) = take_sign cs; z = takeWhile is_digit ds
             in if z = [] then 0 else if neg then - dec_val z else dec_val z)
          else 0)"

definition scale10 :: "rat \<Rightarrow> int \<Rightarrow> rat" where
  "scale10 m e = (if 0 \<le> e then m * 10 ^ nat e else m / 10 ^ nat (- e))"

text \<open>
  \<^verbatim>\<open>parseFloat(s)\<close>: leading white space is skipped and the longest prefix that is a
  decimal literal is the value: a sign, then \<^verbatim>\<open>Infinity\<close>, or digits with an optional
  fraction and exponent. With no such prefix the result is NaN.
\<close>

definition parseFloat :: "string \<Rightarrow> number" where
  "parseFloat s =
     (let (neg, r) = take_sign (dropWhile is_space s) in
      if take 8 r = ''Infinity'' then (if neg then NegInfinity else Infinity)
      else
        let ip = takeWhile is_digit r;
            r1 = dropWhile is_digit r;
            dot = (case r1 of [] \<Rightarrow> False | c # cs \<Rightarrow> c = CHR ''.'');
            fp = (if dot then takeWhile is_digit (tl r1) else []);
            r2 = (if dot then dropWhile is_digit (tl r1) else r1);
            m = of_int (dec_val ip) + of_int (dec_val fp) / 10 ^ length fp;
            v = scale10 m (exponent r2)
        in if ip = [] \<and> fp = [] then NaN else Num (if neg then - v else v))"


subsection \<open>What the store does with strings and numbers\<close>

text \<open>
  The relational store is not part of the repository. Its conversions and operators are
  modelled as PostgreSQL performs them on ASCII text, for the column types the data
  model names: text, an integer \<open>potential\<close> and a decimal \<open>estimatedcost\<close>.
\<close>

datatype error = StorageError

definition lower :: "char \<Rightarrow> char" where
  "lower c = (if 65 \<le> (of_char c :: int) \<and> (of_char c :: int) \<le> 90
              then char_of ((of_char c :: int) + 32) else c)"

text \<open>
  \<^verbatim>\<open>text LIKE pattern\<close>, the pattern first: \<^verbatim>\<open>%\<close> matches any run of characters,
  \<^verbatim>\<open>_\<close> any one character, and a backslash takes the next character literally. The
  patterns of this program end with \<^verbatim>\<open>%\<close>, so none ends with a lone backslash.
\<close>

fun like :: "string \<Rightarrow> string \<Rightarrow> bool" where
  "like [] s = (s = [])"
| "like (p # ps) [] = (p = CHR ''%'' \<and> like ps [])"
| "like (p # ps) (c # t) =
     (if p = CHR ''%'' then like ps (c # t) \<or> like (p # ps) t
      else if p = CHR ''_'' then like ps t
      else if p = CHR 0x5C then (case ps of [] \<Rightarrow> False | q # qs \<Rightarrow> c = q \<and> like qs t)
      else c = p \<and> like ps t)"

text \<open>\<^verbatim>\<open>text ILIKE pattern\<close>, which is also \<^verbatim>\<open>LOWER(text) LIKE LOWER(pattern)\<close>.\<close>

definition ilike :: "string \<Rightarrow> string \<Rightarrow> bool" where
  "ilike pattern s = like (map lower pattern) (map lower s)"

text \<open>\<^verbatim>\<open>column ILIKE '%term%'\<close> on a nullable text column: null never matches.\<close>

definition contains :: "string \<Rightarrow> string option \<Rightarrow> bool" where
  "contains term col = (case col of None \<Rightarrow> False | Some s \<Rightarrow> ilike (''%'' @ term @ ''%'') s)"

text \<open>A JavaScript number bound to the integer column: NaN and values out of range fail.\<close>

definition int4_param :: "int option \<Rightarrow> error + int" where
  "int4_param v =
     (case v of
        None \<Rightarrow> Inl StorageError
      | Some n \<Rightarrow> if - 2147483648 \<le> n \<and> n \<le> 2147483647 then Inr n else Inl StorageError)"

text \<open>A string bound to the integer column: white space, a sign, digits, white space.\<close>

definition pg_int4_in :: "string \<Rightarrow> error + int" where
  "pg_int4_in s =
     (let (neg, r) = take_sign (dropWhile is_space s);
          z = takeWhile is_digit r;
          rest = dropWhile is_digit r
      in if z = [] \<or> \<not> list_all is_space rest then Inl StorageError
         else int4_param (Some (if neg then - dec_val z else dec_val z)))"

text \<open>
  A string bound to the decimal column: \<^verbatim>\<open>NaN\<close>, a signed \<^verbatim>\<open>Infinity\<close> or
  \<^verbatim>\<open>inf\<close>, or a signed decimal literal with an optional exponent, the whole string
  between optional white space. Precision and scale of the column are outside the model.
\<close>

definition pg_numeric_in :: "string \<Rightarrow> error + number" where
  "pg_numeric_in s =
     (let t = rev (dropWhile is_space (rev (dropWhile is_space s)));
          (neg, r) = take_sign t;
          ip = takeWhile is_digit r;
          r1 = dropWhile is_digit r;
          dot = (case r1 of [] \<Rightarrow> False | c # cs \<Rightarrow> c = CHR ''.'');
          fp = (if dot then takeWhile is_digit (tl r1) else []);
          r2 = (if dot then dropWhile is_digit (tl r1) else r1);
          ex = (case r2 of [] \<Rightarrow> [] | c # cs \<Rightarrow> snd (take_sign cs));
          m = of_int (dec_val ip) + of_int (dec_val fp) / 10 ^ length fp;
          v = scale10 m (exponent r2)
      in if map lower t = ''nan'' then Inr NaN
         else if map lower r = ''infinity'' \<or> map lower r = ''inf''
           then Inr (if neg then NegInfinity else Infinity)
         else if ip = [] \<and> fp = [] then Inl StorageError
         else if r2 = [] then Inr (Num (if neg then - v else v))
         else if (hd r2 = CHR ''e'' \<or> hd r2 = CHR ''E'') \<and> ex \<noteq> [] \<and> list_all is_digit ex
           then Inr (Num (if neg then - v else v))
         else Inl StorageError)"

section \<open>The tables\<close>

text \<open>
  Three tables: \<^verbatim>\<open>security\<close> (users), \<^verbatim>\<open>idea_details\<close> and \<^verbatim>\<open>collaborations\<close>.
  A table is the list of its rows in the order a query without \<^verbatim>\<open>ORDER BY\<close> returns
  them. The column \<^verbatim>\<open>marketingstrategy\<close> is an array of text in \<^verbatim>\<open>index.js\<close> and a
  text in the other file, so its type is a parameter. Of a user only the columns the
  idea routes read are kept. Timestamps are milliseconds since the epoch.
\<close>

record user =
  s_userid :: int
  username :: string
  firstname :: string
  lastname :: string

record 'm idea =
  ideaid :: int
  userid :: int
  ideaname :: string
  ideadescription :: string
  marketingstrategy :: "'m option"
  targetcustomer :: "string option"
  estimatedcost :: "number option"
  timeline :: "string option"
  potential :: "int option"
  createdat :: "int option"
  updatedat :: "int option"

record collaboration =
  collaborationid :: int
  c_ideaid :: int
  c_userid :: int

record 'm db =
  security :: "user list"
  idea_details :: "'m idea list"
  collaborations :: "collaboration list"
  ideaid_seq :: int
  collaborationid_seq :: int

text \<open>
  Modelled from the spec: the table declarations are not among the sources. The data
  model gives each table a unique id, makes the idea id and the user id of a
  collaboration foreign keys with (idea id, user id) unique, makes the owner of an idea a
  foreign key, and has the collaborations of an idea deleted with it. What a foreign key
  does when its idea is deleted is kept as a parameter: \<open>Cascade\<close> is the spec's
  reading, \<open>Restrict\<close> the one the comment in the other file's delete route names.
  The values the column defaults give the timestamps of a new idea are parameters too.
\<close>

datatype on_delete = Cascade | Restrict

record defaults =
  d_createdat :: "int option"
  d_updatedat :: "int option"

definition idea_exists :: "'m db \<Rightarrow> int \<Rightarrow> bool" where
  "idea_exists db i = list_ex (\<lambda>r. ideaid r = i) (idea_details db)"

definition user_exists :: "'m db \<Rightarrow> int \<Rightarrow> bool" where
  "user_exists db u = list_ex (\<lambda>r. s_userid r = u) (security db)"

definition collaborationExists :: "'m db \<Rightarrow> int \<Rightarrow> int \<Rightarrow> bool" where
  "collaborationExists db i u = list_ex (\<lambda>c. c_ideaid c = i \<and> c_userid c = u) (collaborations db)"

definition db_ok :: "'m db \<Rightarrow> bool" where
  "db_ok db =
     (distinct (map s_userid (security db))
      \<and> distinct (map ideaid (idea_details db))
      \<and> distinct (map collaborationid (collaborations db))
      \<and> distinct (map (\<lambda>c. (c_ideaid c, c_userid c)) (collaborations db))
      \<and> list_all (\<lambda>r. ideaid r < ideaid_seq db \<and> user_exists db (userid r)) (idea_details db)
      \<and> list_all (\<lambda>c. collaborationid c < collaborationid_seq db
            \<and> idea_exists db (c_ideaid c) \<and> user_exists db (c_userid c)) (collaborations db))"

text \<open>The statements. A statement that fails leaves the tables as they were.\<close>

definition insert_idea :: "defaults \<Rightarrow> 'm db \<Rightarrow> 'm idea \<Rightarrow> error + 'm db" where
  "insert_idea dflt db row =
     (if user_exists db (userid row)
      then Inr (db\<lparr>idea_details := idea_details db
                     @ [row\<lparr>ideaid := ideaid_seq db, createdat := d_createdat dflt,
                             updatedat := d_updatedat dflt\<rparr>],
                   ideaid_seq := ideaid_seq db + 1\<rparr>)
      else Inl StorageError)"

definition update_idea :: "'m db \<Rightarrow> int \<Rightarrow> ('m idea \<Rightarrow> 'm idea) \<Rightarrow> 'm db" where
  "update_idea db i f = db\<lparr>idea_details := map (\<lambda>r. if ideaid r = i then f r else r) (idea_details db)\<rparr>"

definition delete_collaborations :: "'m db \<Rightarrow> (collaboration \<Rightarrow> bool) \<Rightarrow> 'm db" where
  "delete_collaborations db P = db\<lparr>collaborations := filter (\<lambda>c. \<not> P c) (collaborations db)\<rparr>"

definition delete_idea_row :: "on_delete \<Rightarrow> 'm db \<Rightarrow> int \<Rightarrow> error + 'm db" where
  "delete_idea_row od db i =
     (case od of
        Cascade \<Rightarrow>
          Inr (db\<lparr>idea_details := filter (\<lambda>r. ideaid r \<noteq> i) (idea_details db),
                  collaborations := filter (\<lambda>c. c_ideaid c \<noteq> i) (collaborations db)\<rparr>)
      | Restrict \<Rightarrow>
          if idea_exists db i \<and> list_ex (\<lambda>c. c_ideaid c = i) (collaborations db)
          then Inl StorageError
          else Inr (db\<lparr>idea_details := filter (\<lambda>r. ideaid r \<noteq> i) (idea_details db)\<rparr>))"

definition insert_collaboration :: "'m db \<Rightarrow> int \<Rightarrow> int \<Rightarrow> error + 'm db" where
  "insert_collaboration db i u =
     (if idea_exists db i \<and> user_exists db u \<and> \<not> collaborationExists db i u
      then Inr (db\<lparr>collaborations := collaborations db
                     @ [\<lparr>collaborationid = collaborationid_seq db, c_ideaid = i, c_userid = u\<rparr>],
                   collaborationid_seq := collaborationid_seq db + 1\<rparr>)
      else Inl StorageError)"

text \<open>\<^verbatim>\<open>insert(...).onConflict(['ideaid', 'userid']).ignore()\<close>\<close>

definition insert_collaboration_ignore :: "'m db \<Rightarrow> int \<Rightarrow> int \<Rightarrow> error + 'm db" where
  "insert_collaboration_ignore db i u =
     (if collaborationExists db i u then Inr db else insert_collaboration db i u)"

text \<open>\<^verbatim>\<open>.where({...}).first()\<close>\<close>

definition first_idea :: "'m db \<Rightarrow> int \<Rightarrow> 'm idea option" where
  "first_idea db i = find (\<lambda>r. ideaid r = i) (idea_details db)"

definition first_collaboration :: "'m db \<Rightarrow> int \<Rightarrow> int \<Rightarrow> collaboration option" where
  "first_collaboration db i u = find (\<lambda>c. c_ideaid c = i \<and> c_userid c = u) (collaborations db)"


section \<open>Requests and responses\<close>

text \<open>
  The handlers are modelled after the authentication middleware has let the request
  through: \<open>userId\<close> is \<^verbatim>\<open>req.session.userId\<close>. An id in the path is the integer the
  store reads from the path segment; a segment that is no integer fails in the store
  and changes nothing. A handler returns its response and the tables after it;
  \<open>NoResponse\<close> is a rejected promise that no \<^verbatim>\<open>catch\<close> handles.
\<close>

datatype page = IdeasPage | AddIdeaPage | EditIdeaPage int

datatype response = Redirect page | Render page string | NoResponse

record 'v form =
  f_ideaname :: field
  f_ideadescription :: field
  f_marketingstrategy :: 'v
  f_targetcustomer :: field
  f_estimatedcost :: field
  f_timeline :: field
  f_potential :: field

section \<open>Access control\<close>

definition isOwner :: "'m idea \<Rightarrow> int \<Rightarrow> bool" where
  "isOwner idea userId = (userid idea = userId)"

definition canView :: "'m db \<Rightarrow> 'm idea \<Rightarrow> int \<Rightarrow> bool" where
  "canView db idea userId = (isOwner idea userId \<or> collaborationExists db (ideaid idea) userId)"

section \<open>The file with the routes /ideas, /addIdea, /editIdea, /deleteIdea\<close>

subsection \<open>POST /addIdea and POST /editIdea/:id\<close>

text \<open>\<^verbatim>\<open>potential ? parseInt(potential) : null\<close>, bound to the integer column.\<close>

definition potential_value :: "field \<Rightarrow> error + int option" where
  "potential_value v =
     (if truthy v then map_sum id Some (int4_param (parseInt (or_empty v))) else Inr None)"

text \<open>\<^verbatim>\<open>estimatedcost ? parseFloat(estimatedcost) : null\<close>\<close>

definition estimatedcost_value :: "field \<Rightarrow> number option" where
  "estimatedcost_value v = (if truthy v then Some (parseFloat (or_empty v)) else None)"

definition addIdea :: "defaults \<Rightarrow> string db \<Rightarrow> int \<Rightarrow> field form \<Rightarrow> response \<times> string db" where
  "addIdea dflt db userId body =
     (if falsy (f_ideaname body) \<or> falsy (f_ideadescription body)
      then (Render AddIdeaPage ''Idea name and description are required'', db)
      else
        case potential_value (f_potential body) of
          Inl e \<Rightarrow> (Render AddIdeaPage ''Unable to save idea. Please try again.'', db)
        | Inr p \<Rightarrow>
            (case insert_idea dflt db
                    \<lparr>ideaid = 0, userid = userId,
                     ideaname = or_empty (f_ideaname body),
                     ideadescription = or_empty (f_ideadescription body),
                     marketingstrategy = or_null (f_marketingstrategy body),
                     targetcustomer = or_null (f_targetcustomer body),
                     estimatedcost = estimatedcost_value (f_estimatedcost body),
                     timeline = or_null (f_timeline body),
                     potential = p,
                     createdat = None, updatedat = None\<rparr> of
               Inl e \<Rightarrow> (Render AddIdeaPage ''Unable to save idea. Please try again.'', db)
             | Inr db' \<Rightarrow> (Redirect IdeasPage, db')))"

definition editIdea :: "string db \<Rightarrow> int \<Rightarrow> int \<Rightarrow> field form \<Rightarrow> response \<times> string db" where
  "editIdea db userId ideaId body =
     (if falsy (f_ideaname body) \<or> falsy (f_ideadescription body)
      then (Redirect (EditIdeaPage ideaId), db)
      else
        case first_idea db ideaId of
          None \<Rightarrow> (Redirect IdeasPage, db)
        | Some idea \<Rightarrow>
            if \<not> isOwner idea userId \<and> first_collaboration db ideaId userId = None
            then (Redirect IdeasPage, db)
            else
              (case potential_value (f_potential body) of
                 Inl e \<Rightarrow> (Redirect (EditIdeaPage ideaId), db)
               | Inr p \<Rightarrow>
                   (Redirect IdeasPage,
                    update_idea db ideaId
                      (\<lambda>r. r\<lparr>ideaname := or_empty (f_ideaname body),
                             ideadescription := or_empty (f_ideadescription body),
                             marketingstrategy := or_null (f_marketingstrategy body),
                             targetcustomer := or_null (f_targetcustomer body),
                             estimatedcost := estimatedcost_value (f_estimatedcost body),
                             timeline := or_null (f_timeline body),
                             potential := p\<rparr>))))"

subsection \<open>POST /deleteIdea/:id\<close>

text \<open>
  The owner check, then two statements: the collaborations of the idea are deleted
  first, then the idea.
\<close>

definition deleteIdea :: "on_delete \<Rightarrow> 'm db \<Rightarrow> int \<Rightarrow> int \<Rightarrow> response \<times> 'm db" where
  "deleteIdea od db userId ideaId =
     (case first_idea db ideaId of
        None \<Rightarrow> (Redirect IdeasPage, db)
      | Some idea \<Rightarrow>
          if userid idea \<noteq> userId then (Redirect IdeasPage, db)
          else
            let db1 = delete_collaborations db (\<lambda>c. c_ideaid c = ideaId)
            in (case delete_idea_row od db1 ideaId of
                  Inl e \<Rightarrow> (Redirect IdeasPage, db1)
                | Inr db2 \<Rightarrow> (Redirect IdeasPage, db2)))"

subsection \<open>The collaboration routes\<close>

text \<open>
  \<^verbatim>\<open>req.body.collaboratorId\<close> goes to the store as it is. When it is
  \<^verbatim>\<open>undefined\<close> the query builder rejects the lookup of the existing row, and a string
  that is no integer fails in the store. That lookup is a promise of its own with no
  \<^verbatim>\<open>catch\<close>, so no response is sent and nothing is written.
\<close>

definition addCollaborator :: "'m db \<Rightarrow> int \<Rightarrow> int \<Rightarrow> field \<Rightarrow> response \<times> 'm db" where
  "addCollaborator db userId ideaId collaboratorId =
     (case first_idea db ideaId of
        None \<Rightarrow> (Redirect (EditIdeaPage ideaId), db)
      | Some idea \<Rightarrow>
          if userid idea \<noteq> userId then (Redirect (EditIdeaPage ideaId), db)
          else
            (case collaboratorId of
               None \<Rightarrow> (NoResponse, db)
             | Some s \<Rightarrow>
                 (case pg_int4_in s of
                    Inl e \<Rightarrow> (NoResponse, db)
                  | Inr u \<Rightarrow>
                      (case first_collaboration db ideaId u of
                         Some existing \<Rightarrow> (Redirect (EditIdeaPage ideaId), db)
                       | None \<Rightarrow>
                           (case insert_collaboration db ideaId u of
                              Inl e \<Rightarrow> (Redirect (EditIdeaPage ideaId), db)
                            | Inr db' \<Rightarrow> (Redirect (EditIdeaPage ideaId), db'))))))"

definition removeCollaborator :: "'m db \<Rightarrow> int \<Rightarrow> int \<Rightarrow> response \<times> 'm db" where
  "removeCollaborator db userId collaborationId =
     (case find (\<lambda>c. collaborationid c = collaborationId) (collaborations db) of
        None \<Rightarrow> (Redirect IdeasPage, db)
      | Some collaboration \<Rightarrow>
          (case first_idea db (c_ideaid collaboration) of
             None \<Rightarrow> (Redirect (EditIdeaPage (c_ideaid collaboration)), db)
           | Some idea \<Rightarrow>
               if userid idea \<noteq> userId then (Redirect (EditIdeaPage (c_ideaid collaboration)), db)
               else (Redirect (EditIdeaPage (c_ideaid collaboration)),
                     delete_collaborations db (\<lambda>c. collaborationid c = collaborationId))))"

definition leaveCollaboration :: "'m db \<Rightarrow> int \<Rightarrow> int \<Rightarrow> response \<times> 'm db" where
  "leaveCollaboration db userId ideaId =
     (Redirect IdeasPage, delete_collaborations db (\<lambda>c. c_ideaid c = ideaId \<and> c_userid c = userId))"


subsection \<open>GET /ideas\<close>

record ideas_query =
  searchName :: field
  searchMarketing :: field
  searchCustomer :: field
  minCost :: field
  maxCost :: field
  minPotential :: field

text \<open>
  The filters of the \<^verbatim>\<open>WHERE\<close> clause, each on the parameter and the column it
  compares. A filter is added when its parameter is truthy; a null column passes no
  comparison. Both files build their filters from these.
\<close>

definition text_filter :: "field \<Rightarrow> string option \<Rightarrow> bool" where
  "text_filter v col = (if truthy v then contains (or_empty v) col else True)"

definition min_filter :: "field \<Rightarrow> number option \<Rightarrow> bool" where
  "min_filter v col =
     (if truthy v
      then (case col of None \<Rightarrow> False | Some c \<Rightarrow> number_le (parseFloat (or_empty v)) c)
      else True)"

definition max_filter :: "field \<Rightarrow> number option \<Rightarrow> bool" where
  "max_filter v col =
     (if truthy v
      then (case col of None \<Rightarrow> False | Some c \<Rightarrow> number_le c (parseFloat (or_empty v)))
      else True)"

definition potential_filter :: "field \<Rightarrow> int option \<Rightarrow> bool" where
  "potential_filter v col =
     (if truthy v
      then (case int4_param (parseInt (or_empty v)) of
              Inl e \<Rightarrow> False
            | Inr n \<Rightarrow> (case col of None \<Rightarrow> False | Some p \<Rightarrow> n \<le> p))
      else True)"

text \<open>The query fails in the store when the potential bound is no integer of the column.\<close>

definition potential_fails :: "field \<Rightarrow> bool" where
  "potential_fails v = (truthy v \<and> isl (int4_param (parseInt (or_empty v))))"

definition ideas_filters :: "ideas_query \<Rightarrow> string idea \<Rightarrow> bool" where
  "ideas_filters q r =
     (text_filter (searchName q) (Some (ideaname r))
      \<and> text_filter (searchMarketing q) (marketingstrategy r)
      \<and> text_filter (searchCustomer q) (targetcustomer r)
      \<and> min_filter (minCost q) (estimatedcost r)
      \<and> max_filter (maxCost q) (estimatedcost r)
      \<and> potential_filter (minPotential q) (potential r))"

definition ideas_fails :: "ideas_query \<Rightarrow> bool" where
  "ideas_fails q = potential_fails (minPotential q)"

text \<open>A left join: the matching rows, or one null row when there is none.\<close>

definition left_join :: "'a list \<Rightarrow> 'a option list" where
  "left_join ms = (if ms = [] then [None] else map Some ms)"

definition owner_rows :: "'m db \<Rightarrow> 'm idea \<Rightarrow> user option list" where
  "owner_rows db r = left_join (filter (\<lambda>s. s_userid s = userid r) (security db))"

definition collaboration_rows :: "'m db \<Rightarrow> 'm idea \<Rightarrow> collaboration option list" where
  "collaboration_rows db r = left_join (filter (\<lambda>c. c_ideaid c = ideaid r) (collaborations db))"

text \<open>\<^verbatim>\<open>id.userid = userId OR c.userid = userId\<close> on a joined row.\<close>

definition owns_or_collaborates :: "int \<Rightarrow> 'm idea \<Rightarrow> collaboration option \<Rightarrow> bool" where
  "owns_or_collaborates userId r c =
     (userid r = userId \<or> (case c of None \<Rightarrow> False | Some c' \<Rightarrow> c_userid c' = userId))"

definition joined_rows :: "string db \<Rightarrow> int \<Rightarrow> ideas_query \<Rightarrow> (string idea \<times> user option) list" where
  "joined_rows db userId q =
     concat (map (\<lambda>r.
       concat (map (\<lambda>s.
         concat (map (\<lambda>c. if owns_or_collaborates userId r c \<and> ideas_filters q r then [(r, s)] else [])
                     (collaboration_rows db r)))
         (owner_rows db r)))
       (idea_details db))"

text \<open>\<^verbatim>\<open>GROUP BY\<close>: one row for each key, the first of its group.\<close>

fun group_by :: "('a \<Rightarrow> 'k) \<Rightarrow> 'k list \<Rightarrow> 'a list \<Rightarrow> 'a list" where
  "group_by k seen [] = []"
| "group_by k seen (x # xs) =
     (if k x \<in> set seen then group_by k seen xs else x # group_by k (k x # seen) xs)"

text \<open>
  A row of the result: the selected columns of the idea (all but the two timestamps,
  which are null here), the owner's names, and the collaborators added by the second
  query.
\<close>

record ideas_row =
  b_idea :: "string idea"
  b_owner :: "user option"
  b_collaborators :: "user list"

definition collaborators_of :: "'m db \<Rightarrow> int \<Rightarrow> user list" where
  "collaborators_of db i =
     concat (map (\<lambda>c. filter (\<lambda>s. s_userid s = c_userid c) (security db))
                 (filter (\<lambda>c. c_ideaid c = i) (collaborations db)))"

definition ideas_row_of :: "string db \<Rightarrow> string idea \<times> user option \<Rightarrow> ideas_row" where
  "ideas_row_of db rs =
     \<lparr>b_idea = (fst rs)\<lparr>createdat := None, updatedat := None\<rparr>,
      b_owner = snd rs,
      b_collaborators = collaborators_of db (ideaid (fst rs))\<rparr>"

text \<open>
  \<open>Inl\<close>: the query failed, and the page is rendered with an empty list and the
  error message.
\<close>

definition ideas :: "string db \<Rightarrow> int \<Rightarrow> ideas_query \<Rightarrow> error + ideas_row list" where
  "ideas db userId q =
     (if ideas_fails q then Inl StorageError
      else Inr (map (ideas_row_of db)
                 (sort_key (\<lambda>rs. - ideaid (fst rs))
                   (group_by (\<lambda>rs. (ideaid (fst rs), map_option s_userid (snd rs))) []
                     (joined_rows db userId q)))))"

text \<open>All the requests of this file that write to the two idea tables.\<close>

datatype request =
    POST_addIdea "field form"
  | POST_editIdea int "field form"
  | POST_deleteIdea int
  | POST_addCollaborator int field
  | POST_removeCollaborator int
  | POST_leaveCollaboration int

fun handle :: "defaults \<Rightarrow> on_delete \<Rightarrow> string db \<Rightarrow> int \<Rightarrow> request \<Rightarrow> response \<times> string db" where
  "handle dflt od db userId (POST_addIdea body) = addIdea dflt db userId body"
| "handle dflt od db userId (POST_editIdea ideaId body) = editIdea db userId ideaId body"
| "handle dflt od db userId (POST_deleteIdea ideaId) = deleteIdea od db userId ideaId"
| "handle dflt od db userId (POST_addCollaborator ideaId c) = addCollaborator db userId ideaId c"
| "handle dflt od db userId (POST_removeCollaborator cid) = removeCollaborator db userId cid"
| "handle dflt od db userId (POST_leaveCollaboration ideaId) = leaveCollaboration db userId ideaId"


section \<open>The file index.js, with the routes /view-ideas, /add-idea, /edit-idea, /delete-idea\<close>

subsection \<open>What the form fields become in the store\<close>

text \<open>
  \<^verbatim>\<open>index.js\<close> hands the strings of the form to the store, which converts them to
  the type of the column. A column whose value is \<^verbatim>\<open>undefined\<close> is left to its
  default in an insert and is left out of an update. Modelled from the spec: name and
  description are the columns of an idea that are not optional, so an insert without
  one of them fails.
\<close>

definition bind :: "error + 'a \<Rightarrow> ('a \<Rightarrow> error + 'b) \<Rightarrow> error + 'b" where
  "bind m f = (case m of Inl e \<Rightarrow> Inl e | Inr x \<Rightarrow> f x)"

definition required_text :: "field \<Rightarrow> error + string" where
  "required_text v = (case v of None \<Rightarrow> Inl StorageError | Some s \<Rightarrow> Inr s)"

definition numeric_column :: "string option \<Rightarrow> error + number option" where
  "numeric_column v = (case v of None \<Rightarrow> Inr None | Some s \<Rightarrow> map_sum id Some (pg_numeric_in s))"

definition int4_column :: "string option \<Rightarrow> error + int option" where
  "int4_column v = (case v of None \<Rightarrow> Inr None | Some s \<Rightarrow> map_sum id Some (pg_int4_in s))"

definition marketingArray :: "jsval \<Rightarrow> string list option" where
  "marketingArray v =
     (if truthy_val v
      then (case v of Arr a \<Rightarrow> Some a | Str s \<Rightarrow> Some [s] | Undefined \<Rightarrow> None)
      else None)"

subsection \<open>POST /add-idea and POST /edit-idea/:id\<close>

definition add_idea :: "defaults \<Rightarrow> string list db \<Rightarrow> int \<Rightarrow> jsval form \<Rightarrow> response \<times> string list db" where
  "add_idea dflt db userId body =
     (case bind (required_text (f_ideaname body)) (\<lambda>name.
           bind (required_text (f_ideadescription body)) (\<lambda>description.
           bind (numeric_column (or_null (f_estimatedcost body))) (\<lambda>cost.
           bind (int4_column (or_null (f_potential body))) (\<lambda>p.
             insert_idea dflt db
               \<lparr>ideaid = 0, userid = userId,
                ideaname = name,
                ideadescription = description,
                marketingstrategy = marketingArray (f_marketingstrategy body),
                targetcustomer = or_null (f_targetcustomer body),
                estimatedcost = cost,
                timeline = or_null (f_timeline body),
                potential = p,
                createdat = None, updatedat = None\<rparr>)))) of
        Inl e \<Rightarrow> (Render AddIdeaPage ''Failed to add idea. Please try again.'', db)
      | Inr db' \<Rightarrow> (Redirect IdeasPage, db'))"

definition edit_idea :: "int \<Rightarrow> string list db \<Rightarrow> int \<Rightarrow> int \<Rightarrow> jsval form \<Rightarrow> response \<times> string list db" where
  "edit_idea now db userId ideaId body =
     (case first_idea db ideaId of
        None \<Rightarrow> (Redirect IdeasPage, db)
      | Some idea \<Rightarrow>
          if \<not> isOwner idea userId \<and> first_collaboration db ideaId userId = None
          then (Redirect IdeasPage, db)
          else
            (case bind (numeric_column (or_null (f_estimatedcost body))) (\<lambda>cost.
                  bind (int4_column (or_null (f_potential body))) (\<lambda>p.
                    Inr (update_idea db ideaId
                      (\<lambda>r. r\<lparr>ideaname := (case f_ideaname body of None \<Rightarrow> ideaname r | Some s \<Rightarrow> s),
                             ideadescription :=
                               (case f_ideadescription body of None \<Rightarrow> ideadescription r | Some s \<Rightarrow> s),
                             marketingstrategy := marketingArray (f_marketingstrategy body),
                             targetcustomer := or_null (f_targetcustomer body),
                             estimatedcost := cost,
                             timeline := or_null (f_timeline body),
                             potential := p,
                             updatedat := Some now\<rparr>)))) of
               Inl e \<Rightarrow> (Redirect (EditIdeaPage ideaId), db)
             | Inr db' \<Rightarrow> (Redirect IdeasPage, db')))"

subsection \<open>The collaboration routes and POST /delete-idea/:id\<close>

text \<open>\<^verbatim>\<open>parseInt(userid)\<close> of the form field; \<^verbatim>\<open>parseInt(undefined)\<close> is NaN.\<close>

definition add_collaborator :: "'m db \<Rightarrow> int \<Rightarrow> int \<Rightarrow> field \<Rightarrow> response \<times> 'm db" where
  "add_collaborator db userId ideaId body_userid =
     (case first_idea db ideaId of
        None \<Rightarrow> (Redirect (EditIdeaPage ideaId), db)
      | Some idea \<Rightarrow>
          if userid idea = userId
          then (case bind (int4_param (case body_userid of None \<Rightarrow> None | Some s \<Rightarrow> parseInt s))
                       (\<lambda>u. insert_collaboration_ignore db ideaId u) of
                  Inl e \<Rightarrow> (Redirect (EditIdeaPage ideaId), db)
                | Inr db' \<Rightarrow> (Redirect (EditIdeaPage ideaId), db'))
          else (Redirect (EditIdeaPage ideaId), db))"

definition remove_collaborator :: "'m db \<Rightarrow> int \<Rightarrow> int \<Rightarrow> int \<Rightarrow> response \<times> 'm db" where
  "remove_collaborator db userId ideaId uid =
     (case first_idea db ideaId of
        None \<Rightarrow> (Redirect (EditIdeaPage ideaId), db)
      | Some idea \<Rightarrow>
          if userid idea = userId
          then (Redirect (EditIdeaPage ideaId),
                delete_collaborations db (\<lambda>c. c_ideaid c = ideaId \<and> c_userid c = uid))
          else (Redirect (EditIdeaPage ideaId), db))"

text \<open>One statement: the idea row is deleted, and the foreign key does the rest.\<close>

definition delete_idea :: "on_delete \<Rightarrow> 'm db \<Rightarrow> int \<Rightarrow> int \<Rightarrow> response \<times> 'm db" where
  "delete_idea od db userId ideaId =
     (case first_idea db ideaId of
        None \<Rightarrow> (Redirect IdeasPage, db)
      | Some idea \<Rightarrow>
          if userid idea = userId
          then (case delete_idea_row od db ideaId of
                  Inl e \<Rightarrow> (Redirect IdeasPage, db)
                | Inr db' \<Rightarrow> (Redirect IdeasPage, db'))
          else (Redirect IdeasPage, db))"

subsection \<open>GET /view-ideas\<close>

record view_query =
  q_marketingstrategy :: field
  q_maxcost :: field
  q_ideaname :: field
  q_potential :: field

text \<open>\<^verbatim>\<open>? = ANY(marketingstrategy)\<close> on the array column.\<close>

definition array_filter :: "field \<Rightarrow> string list option \<Rightarrow> bool" where
  "array_filter v col =
     (if truthy v then (case col of None \<Rightarrow> False | Some a \<Rightarrow> or_empty v \<in> set a) else True)"

definition view_filters :: "view_query \<Rightarrow> string list idea \<Rightarrow> bool" where
  "view_filters q r =
     (array_filter (q_marketingstrategy q) (marketingstrategy r)
      \<and> max_filter (q_maxcost q) (estimatedcost r)
      \<and> text_filter (q_ideaname q) (Some (ideaname r))
      \<and> potential_filter (q_potential q) (potential r))"

definition view_fails :: "view_query \<Rightarrow> bool" where
  "view_fails q = potential_fails (q_potential q)"

record view_row =
  a_idea :: "string list idea"
  a_creator :: "user option"
  is_owner :: bool

definition myIdeas :: "string list db \<Rightarrow> int \<Rightarrow> view_query \<Rightarrow> view_row list" where
  "myIdeas db userId q =
     concat (map (\<lambda>r. map (\<lambda>s. \<lparr>a_idea = r, a_creator = s, is_owner = True\<rparr>) (owner_rows db r))
                 (filter (\<lambda>r. userid r = userId \<and> view_filters q r) (idea_details db)))"

definition sharedIdeas :: "string list db \<Rightarrow> int \<Rightarrow> view_query \<Rightarrow> view_row list" where
  "sharedIdeas db userId q =
     concat (map (\<lambda>r.
       concat (map (\<lambda>s.
         map (\<lambda>c. \<lparr>a_idea = r, a_creator = s, is_owner = False\<rparr>)
             (filter (\<lambda>c. c_ideaid c = ideaid r \<and> c_userid c = userId) (collaborations db)))
         (owner_rows db r)))
       (filter (\<lambda>r. userid r \<noteq> userId \<and> view_filters q r) (idea_details db)))"

text \<open>
  \<^verbatim>\<open>new Date(row.createdat)\<close> as a number: a null timestamp is the epoch. The
  comparator \<^verbatim>\<open>new Date(b.createdat) - new Date(a.createdat)\<close> orders by this number,
  largest first, and the sort of an array is stable.
\<close>

definition created_ms :: "view_row \<Rightarrow> int" where
  "created_ms row = (case createdat (a_idea row) of None \<Rightarrow> 0 | Some t \<Rightarrow> t)"

text \<open>\<open>Inl\<close>: the query failed, and the response is status 500.\<close>

definition view_ideas :: "string list db \<Rightarrow> int \<Rightarrow> view_query \<Rightarrow> error + view_row list" where
  "view_ideas db userId q =
     (if view_fails q then Inl StorageError
      else Inr (sort_key (\<lambda>row. - created_ms row) (myIdeas db userId q @ sharedIdeas db userId q)))"

text \<open>All the requests of this file that write to the two idea tables.\<close>

datatype index_request =
    POST_add_idea "jsval form"
  | POST_edit_idea int "jsval form"
  | POST_add_collaborator int field
  | POST_remove_collaborator int int
  | POST_delete_idea int

fun index_handle :: "defaults \<Rightarrow> on_delete \<Rightarrow> int \<Rightarrow> string list db \<Rightarrow> int \<Rightarrow> index_request
    \<Rightarrow> response \<times> string list db" where
  "index_handle dflt od now db userId (POST_add_idea body) = add_idea dflt db userId body"
| "index_handle dflt od now db userId (POST_edit_idea ideaId body) = edit_idea now db userId ideaId body"
| "index_handle dflt od now db userId (POST_add_collaborator ideaId u) = add_collaborator db userId ideaId u"
| "index_handle dflt od now db userId (POST_remove_collaborator ideaId u) = remove_collaborator db userId ideaId u"
| "index_handle dflt od now db userId (POST_delete_idea ideaId) = delete_idea od db userId ideaId"


section \<open>Sequences of requests\<close>

text \<open>
  The tables after a list of requests, each with the user of its session (and, for
  \<^verbatim>\<open>index.js\<close>, the time of the request).
\<close>

fun run :: "defaults \<Rightarrow> on_delete \<Rightarrow> string db \<Rightarrow> (int \<times> request) list \<Rightarrow> string db" where
  "run dflt od db [] = db"
| "run dflt od db (ur # rest) = run dflt od (snd (handle dflt od db (fst ur) (snd ur))) rest"

fun index_run :: "defaults \<Rightarrow> on_delete \<Rightarrow> string list db \<Rightarrow> (int \<times> int \<times> index_request) list
    \<Rightarrow> string list db" where
  "index_run dflt od db [] = db"
| "index_run dflt od db (nur # rest) =
     index_run dflt od (snd (index_handle dflt od (fst nur) db (fst (snd nur)) (snd (snd nur)))) rest"

section \<open>Pages and pairs of queries\<close>

text \<open>The ideas a listing shows: none when the query failed.\<close>

definition shown :: "error + 'a list \<Rightarrow> 'a list" where
  "shown res = (case res of Inl e \<Rightarrow> [] | Inr rows \<Rightarrow> rows)"

text \<open>
  Two queries applied together: each parameter is taken from the query that supplies
  it. \<open>alone\<close> says that no parameter is supplied by both.
\<close>

definition pick :: "field \<Rightarrow> field \<Rightarrow> field" where
  "pick a b = (if truthy a then a else b)"

definition alone :: "field \<Rightarrow> field \<Rightarrow> bool" where
  "alone a b = (\<not> (truthy a \<and> truthy b))"

definition view_both :: "view_query \<Rightarrow> view_query \<Rightarrow> view_query" where
  "view_both q1 q2 =
     \<lparr>q_marketingstrategy = pick (q_marketingstrategy q1) (q_marketingstrategy q2),
      q_maxcost = pick (q_maxcost q1) (q_maxcost q2),
      q_ideaname = pick (q_ideaname q1) (q_ideaname q2),
      q_potential = pick (q_potential q1) (q_potential q2)\<rparr>"

definition view_apart :: "view_query \<Rightarrow> view_query \<Rightarrow> bool" where
  "view_apart q1 q2 =
     (alone (q_marketingstrategy q1) (q_marketingstrategy q2)
      \<and> alone (q_maxcost q1) (q_maxcost q2)
      \<and> alone (q_ideaname q1) (q_ideaname q2)
      \<and> alone (q_potential q1) (q_potential q2))"

definition ideas_both :: "ideas_query \<Rightarrow> ideas_query \<Rightarrow> ideas_query" where
  "ideas_both q1 q2 =
     \<lparr>searchName = pick (searchName q1) (searchName q2),
      searchMarketing = pick (searchMarketing q1) (searchMarketing q2),
      searchCustomer = pick (searchCustomer q1) (searchCustomer q2),
      minCost = pick (minCost q1) (minCost q2),
      maxCost = pick (maxCost q1) (maxCost q2),
      minPotential = pick (minPotential q1) (minPotential q2)\<rparr>"

definition ideas_apart :: "ideas_query \<Rightarrow> ideas_query \<Rightarrow> bool" where
  "ideas_apart q1 q2 =
     (alone (searchName q1) (searchName q2)
      \<and> alone (searchMarketing q1) (searchMarketing q2)
      \<and> alone (searchCustomer q1) (searchCustomer q2)
      \<and> alone (minCost q1) (minCost q2)
      \<and> alone (maxCost q1) (maxCost q2)
      \<and> alone (minPotential q1) (minPotential q2))"

section \<open>Example tables\<close>

text \<open>
  Two users and two ideas of the first user, created in the same millisecond; the second
  user collaborates on the first idea. The marketing strategy of the ideas is the
  argument, so the same rows serve both files.
\<close>

definition alice :: user where
  "alice = \<lparr>s_userid = 1, username = ''alice'', firstname = ''Alice'', lastname = ''Archer''\<rparr>"

definition bob :: user where
  "bob = \<lparr>s_userid = 2, username = ''bob'', firstname = ''Bob'', lastname = ''Baker''\<rparr>"

definition laundromat :: "'m option \<Rightarrow> 'm idea" where
  "laundromat m =
     \<lparr>ideaid = 1, userid = 1, ideaname = ''Laundromat'', ideadescription = ''Coin laundry'',
      marketingstrategy = m, targetcustomer = None, estimatedcost = Some (Num 5000),
      timeline = None, potential = Some 7, createdat = Some 1000, updatedat = None\<rparr>"

definition kiosk :: "'m option \<Rightarrow> 'm idea" where
  "kiosk m =
     \<lparr>ideaid = 2, userid = 1, ideaname = ''Kiosk'', ideadescription = ''Coffee kiosk'',
      marketingstrategy = m, targetcustomer = None, estimatedcost = Some (Num 500),
      timeline = None, potential = None, createdat = Some 1000, updatedat = None\<rparr>"

definition shared_with_bob :: collaboration where
  "shared_with_bob = \<lparr>collaborationid = 1, c_ideaid = 1, c_userid = 2\<rparr>"

definition example_db :: "'m option \<Rightarrow> 'm db" where
  "example_db m =
     \<lparr>security = [alice, bob], idea_details = [laundromat m, kiosk m],
      collaborations = [shared_with_bob], ideaid_seq = 3, collaborationid_seq = 2\<rparr>"

text \<open>The same tables with the owner of the first idea also among its collaborators.\<close>

definition owner_collaborates_db :: "'m option \<Rightarrow> 'm db" where
  "owner_collaborates_db m =
     \<lparr>security = [alice, bob], idea_details = [laundromat m, kiosk m],
      collaborations = [shared_with_bob, \<lparr>collaborationid = 2, c_ideaid = 1, c_userid = 1\<rparr>],
      ideaid_seq = 3, collaborationid_seq = 3\<rparr>"

text \<open>The same tables with no creation timestamp on either idea.\<close>

definition undated_db :: "'m option \<Rightarrow> 'm db" where
  "undated_db m =
     \<lparr>security = [alice, bob],
      idea_details = [(laundromat m)\<lparr>createdat := None\<rparr>, (kiosk m)\<lparr>createdat := None\<rparr>],
      collaborations = [shared_with_bob], ideaid_seq = 3, collaborationid_seq = 2\<rparr>"

text \<open>A form with an empty name, and a form that renames an idea.\<close>

definition empty_name_form :: "'v \<Rightarrow> 'v form" where
  "empty_name_form m =
     \<lparr>f_ideaname = Some [], f_ideadescription = Some ''A description'', f_marketingstrategy = m,
      f_targetcustomer = None, f_estimatedcost = None, f_timeline = None, f_potential = None\<rparr>"

definition rename_form :: "'v \<Rightarrow> 'v form" where
  "rename_form m =
     \<lparr>f_ideaname = Some ''Laundrette'', f_ideadescription = Some ''Coin laundry'',
      f_marketingstrategy = m, f_targetcustomer = None, f_estimatedcost = Some ''5000'',
      f_timeline = None, f_potential = Some ''7''\<rparr>"

definition no_filter :: view_query where
  "no_filter = \<lparr>q_marketingstrategy = None, q_maxcost = None, q_ideaname = None, q_potential = None\<rparr>"

definition no_search :: ideas_query where
  "no_search =
     \<lparr>searchName = None, searchMarketing = None, searchCustomer = None,
      minCost = None, maxCost = None, minPotential = None\<rparr>"

definition no_defaults :: defaults where
  "no_defaults = \<lparr>d_createdat = None, d_updatedat = None\<rparr>"


section \<open>Facts about the request values\<close>

lemma parseInt_zero: "parseInt ''0'' = Some 0"
  by code_simp

lemma parseFloat_zero: "parseFloat ''0'' = Num 0"
  by code_simp

lemma truthy_simps: "truthy None = False" "truthy (Some []) = False" "truthy (Some (c # cs)) = True"
  by (simp_all add: truthy_def)

lemma filters_empty:
  "text_filter (Some []) = text_filter None"
  "array_filter (Some []) = array_filter None"
  "min_filter (Some []) = min_filter None"
  "max_filter (Some []) = max_filter None"
  "potential_filter (Some []) = potential_filter None"
  "potential_fails (Some []) = potential_fails None"
  by (simp_all add: fun_eq_iff text_filter_def array_filter_def min_filter_def max_filter_def
      potential_filter_def potential_fails_def truthy_simps)

text \<open>The two listings read the query only through its filters and its failure.\<close>

lemma view_ideas_cong:
  "view_filters q = view_filters q' \<Longrightarrow> view_fails q = view_fails q' \<Longrightarrow>
   view_ideas db userId q = view_ideas db userId q'"
  by (simp add: view_ideas_def myIdeas_def sharedIdeas_def)

lemma ideas_cong:
  "ideas_filters q = ideas_filters q' \<Longrightarrow> ideas_fails q = ideas_fails q' \<Longrightarrow>
   ideas db userId q = ideas db userId q'"
  by (simp add: ideas_def joined_rows_def)

section \<open>C10: numeric filter parameters that are empty or "0"\<close>

text \<open>
  C10, as stated, says that a numeric filter parameter whose value is the empty string
  or the string \<^verbatim>\<open>"0"\<close> adds no constraint. The guards test the string, and the
  string \<^verbatim>\<open>"0"\<close> is not empty: with \<^verbatim>\<open>maxcost=0\<close> the first user of the example
  tables sees none of the two ideas that the unfiltered page of \<^verbatim>\<open>index.js\<close> lists,
  and with \<^verbatim>\<open>minPotential=0\<close> the page of the other file drops the idea whose
  potential is null.
\<close>

theorem zero_bound_counterexample:
  "view_ideas (example_db None) 1 no_filter
     = Inr [\<lparr>a_idea = laundromat None, a_creator = Some alice, is_owner = True\<rparr>,
            \<lparr>a_idea = kiosk None, a_creator = Some alice, is_owner = True\<rparr>]
   \<and> view_ideas (example_db None) 1 (no_filter\<lparr>q_maxcost := Some ''0''\<rparr>) = Inr []
   \<and> ideas (example_db None) 1 no_search
     = Inr [\<lparr>b_idea = (kiosk None)\<lparr>createdat := None\<rparr>, b_owner = Some alice,
              b_collaborators = []\<rparr>,
            \<lparr>b_idea = (laundromat None)\<lparr>createdat := None\<rparr>, b_owner = Some alice,
              b_collaborators = [bob]\<rparr>]
   \<and> ideas (example_db None) 1 (no_search\<lparr>minPotential := Some ''0''\<rparr>)
     = Inr [\<lparr>b_idea = (laundromat None)\<lparr>createdat := None\<rparr>, b_owner = Some alice,
              b_collaborators = [bob]\<rparr>]"
  by code_simp

text \<open>
  C10, amended: a numeric filter parameter that is the empty string gives the same page
  as the parameter left out, in both files and for every table, user and other
  parameters; the string \<^verbatim>\<open>"0"\<close> applies the bound zero, so an idea passes only when
  its column is not null and satisfies the comparison with zero.
\<close>

theorem empty_is_absent_zero_is_a_bound:
  "view_ideas db userId (q\<lparr>q_maxcost := Some []\<rparr>) = view_ideas db userId (q\<lparr>q_maxcost := None\<rparr>)
   \<and> view_ideas db userId (q\<lparr>q_potential := Some []\<rparr>) = view_ideas db userId (q\<lparr>q_potential := None\<rparr>)
   \<and> ideas db' userId (s\<lparr>minCost := Some []\<rparr>) = ideas db' userId (s\<lparr>minCost := None\<rparr>)
   \<and> ideas db' userId (s\<lparr>maxCost := Some []\<rparr>) = ideas db' userId (s\<lparr>maxCost := None\<rparr>)
   \<and> ideas db' userId (s\<lparr>minPotential := Some []\<rparr>) = ideas db' userId (s\<lparr>minPotential := None\<rparr>)
   \<and> min_filter (Some ''0'') cost = (case cost of None \<Rightarrow> False | Some c \<Rightarrow> number_le (Num 0) c)
   \<and> max_filter (Some ''0'') cost = (case cost of None \<Rightarrow> False | Some c \<Rightarrow> number_le c (Num 0))
   \<and> potential_filter (Some ''0'') pot = (case pot of None \<Rightarrow> False | Some p \<Rightarrow> 0 \<le> p)
   \<and> potential_fails (Some ''0'') = False"
proof -
  have a1: "view_ideas db userId (q\<lparr>q_maxcost := Some []\<rparr>) = view_ideas db userId (q\<lparr>q_maxcost := None\<rparr>)"
    by (rule view_ideas_cong) (simp_all add: fun_eq_iff view_filters_def view_fails_def filters_empty)
  have a2: "view_ideas db userId (q\<lparr>q_potential := Some []\<rparr>) = view_ideas db userId (q\<lparr>q_potential := None\<rparr>)"
    by (rule view_ideas_cong) (simp_all add: fun_eq_iff view_filters_def view_fails_def filters_empty)
  have b1: "ideas db' userId (s\<lparr>minCost := Some []\<rparr>) = ideas db' userId (s\<lparr>minCost := None\<rparr>)"
    by (rule ideas_cong) (simp_all add: fun_eq_iff ideas_filters_def ideas_fails_def filters_empty)
  have b2: "ideas db' userId (s\<lparr>maxCost := Some []\<rparr>) = ideas db' userId (s\<lparr>maxCost := None\<rparr>)"
    by (rule ideas_cong) (simp_all add: fun_eq_iff ideas_filters_def ideas_fails_def filters_empty)
  have b3: "ideas db' userId (s\<lparr>minPotential := Some []\<rparr>) = ideas db' userId (s\<lparr>minPotential := None\<rparr>)"
    by (rule ideas_cong) (simp_all add: fun_eq_iff ideas_filters_def ideas_fails_def filters_empty)
  have c1: "min_filter (Some ''0'') cost = (case cost of None \<Rightarrow> False | Some c \<Rightarrow> number_le (Num 0) c)"
    by (simp add: min_filter_def truthy_def or_empty_def parseFloat_zero cong: option.case_cong)
  have c2: "max_filter (Some ''0'') cost = (case cost of None \<Rightarrow> False | Some c \<Rightarrow> number_le c (Num 0))"
    by (simp add: max_filter_def truthy_def or_empty_def parseFloat_zero cong: option.case_cong)
  have c3: "potential_filter (Some ''0'') pot = (case pot of None \<Rightarrow> False | Some p \<Rightarrow> 0 \<le> p)"
    by (simp add: potential_filter_def truthy_def or_empty_def parseInt_zero int4_param_def
        cong: option.case_cong)
  have c4: "potential_fails (Some ''0'') = False"
    by (simp add: potential_fails_def truthy_def or_empty_def parseInt_zero int4_param_def)
  from a1 a2 b1 b2 b3 c1 c2 c3 c4 show ?thesis by blast
qed


section \<open>The rows of the two listings\<close>

lemma set_left_join: "set (left_join ms) = (if ms = [] then {None} else Some ` set ms)"
  by (simp add: left_join_def)

lemma left_join_not_Nil: "left_join ms \<noteq> []"
  by (simp add: left_join_def)

lemma owner_rows_not_Nil: "owner_rows db r \<noteq> []"
  by (simp add: owner_rows_def left_join_not_Nil)

lemma collaborates_iff:
  "(\<exists>c\<in>set (collaboration_rows db r). owns_or_collaborates userId r c) = canView db r userId"
proof (cases "userid r = userId")
  case True
  have "collaboration_rows db r \<noteq> []"
    by (simp add: collaboration_rows_def left_join_not_Nil)
  then obtain c where "c \<in> set (collaboration_rows db r)"
    by (cases "collaboration_rows db r") auto
  with True show ?thesis
    by (auto simp: owns_or_collaborates_def canView_def isOwner_def)
next
  case False
  then show ?thesis
    by (auto simp: owns_or_collaborates_def canView_def isOwner_def collaboration_rows_def
        set_left_join collaborationExists_def list_ex_iff filter_empty_conv split: option.splits)
qed

lemma mem_myIdeas:
  "row \<in> set (myIdeas db userId q) \<longleftrightarrow>
     a_idea row \<in> set (idea_details db) \<and> userid (a_idea row) = userId
     \<and> view_filters q (a_idea row) \<and> a_creator row \<in> set (owner_rows db (a_idea row))
     \<and> is_owner row"
  by (cases row) (auto simp: myIdeas_def)

lemma mem_sharedIdeas:
  "row \<in> set (sharedIdeas db userId q) \<longleftrightarrow>
     a_idea row \<in> set (idea_details db) \<and> userid (a_idea row) \<noteq> userId
     \<and> view_filters q (a_idea row) \<and> a_creator row \<in> set (owner_rows db (a_idea row))
     \<and> \<not> is_owner row \<and> collaborationExists db (ideaid (a_idea row)) userId"
  by (cases row) (auto simp: sharedIdeas_def collaborationExists_def list_ex_iff)

lemma mem_joined_rows:
  "rs \<in> set (joined_rows db userId q) \<longleftrightarrow>
     fst rs \<in> set (idea_details db) \<and> snd rs \<in> set (owner_rows db (fst rs))
     \<and> ideas_filters q (fst rs) \<and> canView db (fst rs) userId"
  unfolding collaborates_iff [symmetric]
  by (cases rs) (auto simp: joined_rows_def)

lemma set_group_by: "set (group_by k seen xs) \<subseteq> set xs"
  by (induction xs arbitrary: seen) auto

lemma keys_group_by: "k ` set (group_by k seen xs) = k ` set xs - set seen"
  by (induction xs arbitrary: seen) auto

lemma distinct_group_by: "distinct (map k (group_by k seen xs))"
proof (induction xs arbitrary: seen)
  case Nil
  show ?case by simp
next
  case (Cons x xs)
  have "k x \<notin> k ` set (group_by k (k x # seen) xs)"
    by (simp add: keys_group_by)
  with Cons show ?case by simp
qed

lemma view_ideas_rows:
  "view_ideas db userId q = Inr rows \<Longrightarrow>
   set rows = set (myIdeas db userId q) \<union> set (sharedIdeas db userId q)"
  by (auto simp: view_ideas_def split: if_splits)

lemma view_row_viewable:
  assumes "view_ideas db userId q = Inr rows" and "row \<in> set rows"
  shows "a_idea row \<in> set (idea_details db) \<and> canView db (a_idea row) userId
         \<and> view_filters q (a_idea row) \<and> is_owner row = isOwner (a_idea row) userId"
  using assms view_ideas_rows [OF assms(1)]
  by (auto simp: mem_myIdeas mem_sharedIdeas canView_def isOwner_def)

lemma ideas_rows:
  "ideas db userId q = Inr rows \<Longrightarrow>
   rows = map (ideas_row_of db) (sort_key (\<lambda>rs. - ideaid (fst rs))
            (group_by (\<lambda>rs. (ideaid (fst rs), map_option s_userid (snd rs))) [] (joined_rows db userId q)))"
  by (auto simp: ideas_def split: if_splits)

lemma ideas_row_viewable:
  assumes "ideas db userId q = Inr rows" and "row \<in> set rows"
  shows "\<exists>r\<in>set (idea_details db). b_idea row = r\<lparr>createdat := None, updatedat := None\<rparr>
           \<and> canView db r userId \<and> ideas_filters q r"
proof -
  from assms obtain rs where
    rs: "rs \<in> set (group_by (\<lambda>rs. (ideaid (fst rs), map_option s_userid (snd rs))) [] (joined_rows db userId q))"
    and row: "row = ideas_row_of db rs"
    by (auto simp: ideas_rows [OF assms(1)])
  from rs have "rs \<in> set (joined_rows db userId q)"
    using set_group_by by fastforce
  with row show ?thesis
    by (auto simp: mem_joined_rows ideas_row_of_def)
qed

lemma canView_columns:
  "canView db (r\<lparr>createdat := a, updatedat := b\<rparr>) userId = canView db r userId"
  by (simp add: canView_def isOwner_def)

lemma filters_columns:
  "ideas_filters q (r\<lparr>createdat := a, updatedat := b\<rparr>) = ideas_filters q r"
  by (simp add: ideas_filters_def)

section \<open>C1: a listing shows only ideas the user may view\<close>

text \<open>
  C1: for every user id and every combination of the filters, every idea in the list
  returned by the listing of either file satisfies \<open>canView\<close> for that user (the user
  owns it, or a collaboration row of the idea and the user exists), and an idea of the
  table that the user may not view is not among the rows.
\<close>

theorem listing_shows_only_viewable_ideas:
  "(\<forall>rows. view_ideas db userId q = Inr rows \<longrightarrow>
      (\<forall>row\<in>set rows. a_idea row \<in> set (idea_details db) \<and> canView db (a_idea row) userId)
      \<and> (\<forall>r\<in>set (idea_details db). \<not> canView db r userId \<longrightarrow> r \<notin> a_idea ` set rows))
   \<and> (\<forall>rows. ideas db' userId q' = Inr rows \<longrightarrow>
      (\<forall>row\<in>set rows. canView db' (b_idea row) userId
          \<and> (\<exists>r\<in>set (idea_details db'). b_idea row = r\<lparr>createdat := None, updatedat := None\<rparr>))
      \<and> (\<forall>r\<in>set (idea_details db'). \<not> canView db' r userId \<longrightarrow>
            r\<lparr>createdat := None, updatedat := None\<rparr> \<notin> b_idea ` set rows))"
proof (intro conjI allI impI)
  fix rows assume v: "view_ideas db userId q = Inr rows"
  show "\<forall>row\<in>set rows. a_idea row \<in> set (idea_details db) \<and> canView db (a_idea row) userId"
    using view_row_viewable [OF v] by blast
  show "\<forall>r\<in>set (idea_details db). \<not> canView db r userId \<longrightarrow> r \<notin> a_idea ` set rows"
    using view_row_viewable [OF v] by blast
next
  fix rows assume i: "ideas db' userId q' = Inr rows"
  show "\<forall>row\<in>set rows. canView db' (b_idea row) userId
          \<and> (\<exists>r\<in>set (idea_details db'). b_idea row = r\<lparr>createdat := None, updatedat := None\<rparr>)"
    using ideas_row_viewable [OF i] by (fastforce simp: canView_columns)
  show "\<forall>r\<in>set (idea_details db'). \<not> canView db' r userId \<longrightarrow>
            r\<lparr>createdat := None, updatedat := None\<rparr> \<notin> b_idea ` set rows"
  proof (intro ballI impI notI)
    fix r assume "r \<in> set (idea_details db')" and nv: "\<not> canView db' r userId"
      and "r\<lparr>createdat := None, updatedat := None\<rparr> \<in> b_idea ` set rows"
    then obtain row where "row \<in> set rows" and "b_idea row = r\<lparr>createdat := None, updatedat := None\<rparr>"
      by auto
    with ideas_row_viewable [OF i] have "canView db' (r\<lparr>createdat := None, updatedat := None\<rparr>) userId"
      by (metis canView_columns)
    with nv show False by (simp add: canView_columns)
  qed
qed

theorem listing_shows_only_viewable_ideas_witness:
  "view_ideas (example_db None) 2 no_filter
     = Inr [\<lparr>a_idea = laundromat None, a_creator = Some alice, is_owner = False\<rparr>]
   \<and> canView (example_db None) (laundromat None :: string list idea) 2
   \<and> \<not> canView (example_db None) (kiosk None :: string list idea) 2
   \<and> ideas (example_db None) 2 no_search
     = Inr [\<lparr>b_idea = (laundromat None)\<lparr>createdat := None\<rparr>, b_owner = Some alice,
              b_collaborators = [bob]\<rparr>]
   \<and> canView (example_db None) ((laundromat None :: string idea)\<lparr>createdat := None\<rparr>) 2"
proof -
  have v: "view_ideas (example_db None) 2 no_filter
     = Inr [\<lparr>a_idea = laundromat None, a_creator = Some alice, is_owner = False\<rparr>]"
    by code_simp
  have i: "ideas (example_db None) 2 no_search
     = Inr [\<lparr>b_idea = (laundromat None)\<lparr>createdat := None\<rparr>, b_owner = Some alice,
              b_collaborators = [bob]\<rparr>]"
    by code_simp
  have k: "\<not> canView (example_db None) (kiosk None :: string list idea) 2"
    by code_simp
  from listing_shows_only_viewable_ideas
    [of "example_db None" 2 no_filter "example_db None" no_search] v i
  have "canView (example_db None) (laundromat None :: string list idea) 2
      \<and> canView (example_db None) ((laundromat None :: string idea)\<lparr>createdat := None\<rparr>) 2"
    by simp
  with v i k show ?thesis by simp
qed

section \<open>C7: each visible idea is listed once\<close>

lemma filter_key_le_one:
  "distinct (map f xs) \<Longrightarrow> length (filter (\<lambda>x. f x = v) xs) \<le> 1"
proof (induction xs)
  case Nil
  show ?case by simp
next
  case (Cons a xs)
  show ?case
  proof (cases "f a = v")
    case True
    from Cons.prems have "f a \<notin> f ` set xs" by simp
    with True have "\<forall>x\<in>set xs. f x \<noteq> v" by (metis imageI)
    then have "filter (\<lambda>x. f x = v) xs = []"
      by (simp add: filter_empty_conv)
    with True show ?thesis by simp
  next
    case False
    with Cons show ?thesis by simp
  qed
qed

lemma filter_key_eq_one:
  "distinct (map f xs) \<Longrightarrow> x \<in> set xs \<Longrightarrow> length (filter (\<lambda>y. f y = f x) xs) = 1"
  by (induction xs) (auto simp: filter_empty_conv image_iff)

lemma distinct_map_sort_key:
  "distinct (map f (sort_key k xs)) = distinct (map f xs)"
  by (simp add: distinct_map)

lemma distinct_map_concat:
  assumes "distinct (map f xs)"
    and "\<And>x. x \<in> set xs \<Longrightarrow> length (g x) \<le> 1"
    and "\<And>x y. x \<in> set xs \<Longrightarrow> y \<in> set (g x) \<Longrightarrow> h y = f x"
  shows "distinct (map h (concat (map g xs)))"
  using assms
proof (induction xs)
  case Nil
  show ?case by simp
next
  case (Cons x xs)
  have one: "distinct (map h (g x))"
  proof (cases "g x")
    case Nil
    then show ?thesis by simp
  next
    case (Cons y ys)
    with Cons.prems(2) [of x] have "ys = []" by simp
    with Cons show ?thesis by simp
  qed
  have rest: "distinct (map h (concat (map g xs)))"
    using Cons by simp
  have apart: "h ` set (g x) \<inter> h ` (\<Union>x\<in>set xs. set (g x)) = {}"
  proof (rule ccontr)
    assume "h ` set (g x) \<inter> h ` (\<Union>x\<in>set xs. set (g x)) \<noteq> {}"
    then obtain y x' y' where "y \<in> set (g x)" "x' \<in> set xs" "y' \<in> set (g x')" "h y = h y'"
      by auto
    with Cons.prems(3) [of x y] Cons.prems(3) [of x' y'] have "f x = f x'" by simp
    with \<open>x' \<in> set xs\<close> Cons.prems(1) show False by auto
  qed
  from one rest apart show ?case by simp
qed

lemma owner_rows_one:
  assumes "distinct (map s_userid (security db))"
  shows "\<exists>s. owner_rows db r = [s]"
proof -
  have "length (filter (\<lambda>s. s_userid s = userid r) (security db)) \<le> 1"
    using assms by (rule filter_key_le_one)
  then show ?thesis
    by (cases "filter (\<lambda>s. s_userid s = userid r) (security db)")
      (auto simp: owner_rows_def left_join_def)
qed

lemma collaboration_le_one:
  assumes "distinct (map (\<lambda>c. (c_ideaid c, c_userid c)) (collaborations db))"
  shows "length (filter (\<lambda>c. c_ideaid c = i \<and> c_userid c = u) (collaborations db)) \<le> 1"
  using filter_key_le_one [OF assms, of "(i, u)"] by simp

lemma db_ok_ideaid_inj:
  "db_ok db \<Longrightarrow> r \<in> set (idea_details db) \<Longrightarrow> r' \<in> set (idea_details db) \<Longrightarrow>
   ideaid r = ideaid r' \<Longrightarrow> r = r'"
  by (auto simp: db_ok_def distinct_map inj_on_def)

lemma distinct_myIdeas:
  assumes "db_ok db"
  shows "distinct (map (\<lambda>row. ideaid (a_idea row)) (myIdeas db userId q))"
  unfolding myIdeas_def
proof (rule distinct_map_concat [where f = ideaid])
  show "distinct (map ideaid (filter (\<lambda>r. userid r = userId \<and> view_filters q r) (idea_details db)))"
    using assms by (simp add: db_ok_def distinct_map_filter)
next
  fix r
  from assms obtain s where "owner_rows db r = [s]"
    using owner_rows_one [of db r] by (auto simp: db_ok_def)
  then show "length (map (\<lambda>s. \<lparr>a_idea = r, a_creator = s, is_owner = True\<rparr>) (owner_rows db r)) \<le> 1"
    by simp
next
  fix r row
  assume "row \<in> set (map (\<lambda>s. \<lparr>a_idea = r, a_creator = s, is_owner = True\<rparr>) (owner_rows db r))"
  then show "ideaid (a_idea row) = ideaid r" by auto
qed

lemma distinct_sharedIdeas:
  assumes "db_ok db"
  shows "distinct (map (\<lambda>row. ideaid (a_idea row)) (sharedIdeas db userId q))"
  unfolding sharedIdeas_def
proof (rule distinct_map_concat [where f = ideaid])
  show "distinct (map ideaid (filter (\<lambda>r. userid r \<noteq> userId \<and> view_filters q r) (idea_details db)))"
    using assms by (simp add: db_ok_def distinct_map_filter)
next
  fix r
  from assms obtain s where s: "owner_rows db r = [s]"
    using owner_rows_one [of db r] by (auto simp: db_ok_def)
  have "length (filter (\<lambda>c. c_ideaid c = ideaid r \<and> c_userid c = userId) (collaborations db)) \<le> 1"
    using assms by (intro collaboration_le_one) (simp add: db_ok_def)
  with s show "length (concat (map (\<lambda>s. map (\<lambda>c. \<lparr>a_idea = r, a_creator = s, is_owner = False\<rparr>)
        (filter (\<lambda>c. c_ideaid c = ideaid r \<and> c_userid c = userId) (collaborations db)))
        (owner_rows db r))) \<le> 1"
    by simp
next
  fix r row
  assume "row \<in> set (concat (map (\<lambda>s. map (\<lambda>c. \<lparr>a_idea = r, a_creator = s, is_owner = False\<rparr>)
        (filter (\<lambda>c. c_ideaid c = ideaid r \<and> c_userid c = userId) (collaborations db)))
        (owner_rows db r)))"
  then show "ideaid (a_idea row) = ideaid r" by auto
qed

lemma distinct_view_ideas:
  assumes ok: "db_ok db" and v: "view_ideas db userId q = Inr rows"
  shows "distinct (map (\<lambda>row. ideaid (a_idea row)) rows)"
proof -
  have rows: "rows = sort_key (\<lambda>row. - created_ms row) (myIdeas db userId q @ sharedIdeas db userId q)"
    using v by (auto simp: view_ideas_def split: if_splits)
  have apart: "(\<lambda>row. ideaid (a_idea row)) ` set (myIdeas db userId q)
      \<inter> (\<lambda>row. ideaid (a_idea row)) ` set (sharedIdeas db userId q) = {}"
  proof (rule ccontr)
    assume "(\<lambda>row. ideaid (a_idea row)) ` set (myIdeas db userId q)
      \<inter> (\<lambda>row. ideaid (a_idea row)) ` set (sharedIdeas db userId q) \<noteq> {}"
    then obtain m s where m: "m \<in> set (myIdeas db userId q)" and s: "s \<in> set (sharedIdeas db userId q)"
      and eq: "ideaid (a_idea m) = ideaid (a_idea s)"
      by auto
    from m s eq have "a_idea m = a_idea s"
      using db_ok_ideaid_inj [OF ok] by (simp add: mem_myIdeas mem_sharedIdeas)
    with m s show False by (simp add: mem_myIdeas mem_sharedIdeas)
  qed
  show ?thesis
    unfolding rows distinct_map_sort_key
    using distinct_myIdeas [OF ok] distinct_sharedIdeas [OF ok] apart by simp
qed

lemma view_ideas_lists:
  assumes v: "view_ideas db userId q = Inr rows" and r: "r \<in> set (idea_details db)"
    and c: "canView db r userId" and f: "view_filters q r"
  shows "\<exists>row\<in>set rows. a_idea row = r"
proof -
  obtain s where s: "s \<in> set (owner_rows db r)"
    using owner_rows_not_Nil [of db r] by (cases "owner_rows db r") auto
  show ?thesis
  proof (cases "userid r = userId")
    case True
    with r f s have "\<lparr>a_idea = r, a_creator = s, is_owner = True\<rparr> \<in> set (myIdeas db userId q)"
      by (simp add: mem_myIdeas)
    then show ?thesis
      unfolding view_ideas_rows [OF v] by force
  next
    case False
    with r f s c have "\<lparr>a_idea = r, a_creator = s, is_owner = False\<rparr> \<in> set (sharedIdeas db userId q)"
      by (simp add: mem_sharedIdeas canView_def isOwner_def)
    then show ?thesis
      unfolding view_ideas_rows [OF v] by force
  qed
qed

lemma joined_rows_inj:
  assumes ok: "db_ok db" and a: "rs \<in> set (joined_rows db userId q)" and b: "rs' \<in> set (joined_rows db userId q)"
    and eq: "ideaid (fst rs) = ideaid (fst rs')"
  shows "rs = rs'"
proof -
  from a b eq have same: "fst rs = fst rs'"
    using db_ok_ideaid_inj [OF ok] by (simp add: mem_joined_rows)
  from ok obtain s where "owner_rows db (fst rs) = [s]"
    using owner_rows_one [of db "fst rs"] by (auto simp: db_ok_def)
  with a b same have "snd rs = snd rs'"
    by (simp add: mem_joined_rows)
  with same show ?thesis by (simp add: prod_eq_iff)
qed

lemma distinct_ideas:
  assumes ok: "db_ok db" and i: "ideas db userId q = Inr rows"
  shows "distinct (map (\<lambda>row. ideaid (b_idea row)) rows)"
proof -
  let ?key = "\<lambda>rs :: string idea \<times> user option. (ideaid (fst rs), map_option s_userid (snd rs))"
  let ?g = "group_by ?key [] (joined_rows db userId q)"
  have "distinct (map ?key ?g)" by (rule distinct_group_by)
  then have d: "distinct ?g" by (simp add: distinct_map)
  have "inj_on (\<lambda>rs. ideaid (fst rs)) (set ?g)"
  proof (rule inj_onI)
    fix rs rs' assume "rs \<in> set ?g" "rs' \<in> set ?g" "ideaid (fst rs) = ideaid (fst rs')"
    moreover have "set ?g \<subseteq> set (joined_rows db userId q)" by (rule set_group_by)
    ultimately show "rs = rs'" using joined_rows_inj [OF ok] by blast
  qed
  with d have "distinct (map (\<lambda>rs. ideaid (fst rs)) ?g)"
    by (simp add: distinct_map)
  then have "distinct (map (\<lambda>rs. ideaid (fst rs)) (sort_key (\<lambda>rs. - ideaid (fst rs)) ?g))"
    by (simp only: distinct_map_sort_key)
  moreover have "map (\<lambda>row. ideaid (b_idea row)) rows
      = map (\<lambda>rs. ideaid (fst rs)) (sort_key (\<lambda>rs. - ideaid (fst rs)) ?g)"
    unfolding ideas_rows [OF i] by (simp add: ideas_row_of_def comp_def)
  ultimately show ?thesis by simp
qed

lemma ideas_lists:
  assumes i: "ideas db userId q = Inr rows" and r: "r \<in> set (idea_details db)"
    and c: "canView db r userId" and f: "ideas_filters q r"
  shows "\<exists>row\<in>set rows. ideaid (b_idea row) = ideaid r"
proof -
  let ?key = "\<lambda>rs :: string idea \<times> user option. (ideaid (fst rs), map_option s_userid (snd rs))"
  let ?g = "group_by ?key [] (joined_rows db userId q)"
  obtain s where s: "s \<in> set (owner_rows db r)"
    using owner_rows_not_Nil [of db r] by (cases "owner_rows db r") auto
  with r c f have "(r, s) \<in> set (joined_rows db userId q)"
    by (simp add: mem_joined_rows)
  then have "?key (r, s) \<in> ?key ` set (joined_rows db userId q)"
    by (rule imageI)
  then have "?key (r, s) \<in> ?key ` set ?g"
    by (simp add: keys_group_by)
  then obtain rs where "rs \<in> set ?g" and "ideaid (fst rs) = ideaid r"
    by auto
  then have "ideas_row_of db rs \<in> set rows"
    unfolding ideas_rows [OF i] by simp
  moreover from \<open>ideaid (fst rs) = ideaid r\<close> have "ideaid (b_idea (ideas_row_of db rs)) = ideaid r"
    by (simp add: ideas_row_of_def)
  ultimately show ?thesis by blast
qed

lemma failed_query_passes_nothing:
  "view_fails q \<Longrightarrow> \<not> view_filters q r"
  "ideas_fails s \<Longrightarrow> \<not> ideas_filters s r'"
  by (auto simp: view_fails_def view_filters_def ideas_fails_def ideas_filters_def
      potential_fails_def potential_filter_def split: sum.splits)

lemma listing_returns:
  "\<not> view_fails q \<Longrightarrow> view_ideas db userId q = Inr (shown (view_ideas db userId q))"
  "\<not> ideas_fails s \<Longrightarrow> ideas db' userId s = Inr (shown (ideas db' userId s))"
  by (simp_all add: view_ideas_def ideas_def shown_def)

lemma failed_listing_shows_nothing:
  "view_fails q \<Longrightarrow> shown (view_ideas db userId q) = []"
  "ideas_fails s \<Longrightarrow> shown (ideas db' userId s) = []"
  by (simp_all add: view_ideas_def ideas_def shown_def)

text \<open>
  C7: for every user and filter combination, on tables that satisfy the constraints of
  the data model, the page of either listing has no two rows with the same idea id, and
  every idea of the tables that the user may view and that passes the filters is in
  exactly one row of the page. The listing returns its rows whenever the store accepts
  the potential bound, in particular with no filter. The owner of an idea may be among
  its collaborators: the idea is still listed once.
\<close>

theorem each_visible_idea_is_listed_once:
  assumes "db_ok db" and "db_ok db'"
  shows "distinct (map (\<lambda>row. ideaid (a_idea row)) (shown (view_ideas db userId q)))
       \<and> (\<forall>r\<in>set (idea_details db). canView db r userId \<and> view_filters q r \<longrightarrow>
            length (filter (\<lambda>row. ideaid (a_idea row) = ideaid r)
              (shown (view_ideas db userId q))) = 1)
       \<and> (\<not> view_fails q \<longrightarrow> view_ideas db userId q = Inr (shown (view_ideas db userId q)))
       \<and> distinct (map (\<lambda>row. ideaid (b_idea row)) (shown (ideas db' userId q')))
       \<and> (\<forall>r\<in>set (idea_details db'). canView db' r userId \<and> ideas_filters q' r \<longrightarrow>
            length (filter (\<lambda>row. ideaid (b_idea row) = ideaid r)
              (shown (ideas db' userId q'))) = 1)
       \<and> (\<not> ideas_fails q' \<longrightarrow> ideas db' userId q' = Inr (shown (ideas db' userId q')))"
proof (intro conjI ballI impI)
  show d: "distinct (map (\<lambda>row. ideaid (a_idea row)) (shown (view_ideas db userId q)))"
  proof (cases "view_fails q")
    case True
    then show ?thesis by (simp add: failed_listing_shows_nothing)
  next
    case False
    then show ?thesis
      using distinct_view_ideas [OF assms(1) listing_returns(1)] by blast
  qed
  show d': "distinct (map (\<lambda>row. ideaid (b_idea row)) (shown (ideas db' userId q')))"
  proof (cases "ideas_fails q'")
    case True
    then show ?thesis by (simp add: failed_listing_shows_nothing)
  next
    case False
    then show ?thesis
      using distinct_ideas [OF assms(2) listing_returns(2)] by blast
  qed
  {
    fix r assume r: "r \<in> set (idea_details db)" and c: "canView db r userId \<and> view_filters q r"
    then have "\<not> view_fails q"
      using failed_query_passes_nothing(1) by blast
    then have v: "view_ideas db userId q = Inr (shown (view_ideas db userId q))"
      by (rule listing_returns)
    from r c obtain row where "row \<in> set (shown (view_ideas db userId q))" and "a_idea row = r"
      using view_ideas_lists [OF v] by blast
    with filter_key_eq_one [OF d, of row]
    show "length (filter (\<lambda>row. ideaid (a_idea row) = ideaid r)
              (shown (view_ideas db userId q))) = 1"
      by simp
  next
    fix r assume r: "r \<in> set (idea_details db')" and c: "canView db' r userId \<and> ideas_filters q' r"
    then have "\<not> ideas_fails q'"
      using failed_query_passes_nothing(2) by blast
    then have i: "ideas db' userId q' = Inr (shown (ideas db' userId q'))"
      by (rule listing_returns)
    from r c obtain row where "row \<in> set (shown (ideas db' userId q'))"
      and "ideaid (b_idea row) = ideaid r"
      using ideas_lists [OF i] by blast
    with filter_key_eq_one [OF d', of row]
    show "length (filter (\<lambda>row. ideaid (b_idea row) = ideaid r)
              (shown (ideas db' userId q'))) = 1"
      by simp
  }
next
  assume "\<not> view_fails q"
  then show "view_ideas db userId q = Inr (shown (view_ideas db userId q))"
    by (rule listing_returns)
next
  assume "\<not> ideas_fails q'"
  then show "ideas db' userId q' = Inr (shown (ideas db' userId q'))"
    by (rule listing_returns)
qed

theorem each_visible_idea_is_listed_once_witness:
  "db_ok (owner_collaborates_db None :: string list db)
   \<and> db_ok (owner_collaborates_db None :: string db)
   \<and> collaborationExists (owner_collaborates_db None :: string list db) 1 1
   \<and> collaborationExists (owner_collaborates_db None :: string db) 1 1
   \<and> userid (laundromat None :: string list idea) = 1
   \<and> userid (laundromat None :: string idea) = 1
   \<and> view_ideas (owner_collaborates_db None) 1 no_filter
     = Inr [\<lparr>a_idea = laundromat None, a_creator = Some alice, is_owner = True\<rparr>,
            \<lparr>a_idea = kiosk None, a_creator = Some alice, is_owner = True\<rparr>]
   \<and> length (filter (\<lambda>row. ideaid (a_idea row) = 1)
        (shown (view_ideas (owner_collaborates_db None) 1 no_filter))) = 1
   \<and> ideas (owner_collaborates_db None) 1 no_search
     = Inr [\<lparr>b_idea = (kiosk None)\<lparr>createdat := None\<rparr>, b_owner = Some alice,
              b_collaborators = []\<rparr>,
            \<lparr>b_idea = (laundromat None)\<lparr>createdat := None\<rparr>, b_owner = Some alice,
              b_collaborators = [bob, alice]\<rparr>]
   \<and> length (filter (\<lambda>row. ideaid (b_idea row) = 1)
        (shown (ideas (owner_collaborates_db None) 1 no_search))) = 1"
proof -
  have a: "db_ok (owner_collaborates_db None :: string list db)"
    by code_simp
  have b: "db_ok (owner_collaborates_db None :: string db)"
    by code_simp
  have c: "collaborationExists (owner_collaborates_db None :: string list db) 1 1"
    "collaborationExists (owner_collaborates_db None :: string db) 1 1"
    "userid (laundromat None :: string list idea) = 1"
    "userid (laundromat None :: string idea) = 1"
    by code_simp+
  have v: "view_ideas (owner_collaborates_db None) 1 no_filter
     = Inr [\<lparr>a_idea = laundromat None, a_creator = Some alice, is_owner = True\<rparr>,
            \<lparr>a_idea = kiosk None, a_creator = Some alice, is_owner = True\<rparr>]"
    by code_simp
  have i: "ideas (owner_collaborates_db None) 1 no_search
     = Inr [\<lparr>b_idea = (kiosk None)\<lparr>createdat := None\<rparr>, b_owner = Some alice,
              b_collaborators = []\<rparr>,
            \<lparr>b_idea = (laundromat None)\<lparr>createdat := None\<rparr>, b_owner = Some alice,
              b_collaborators = [bob, alice]\<rparr>]"
    by code_simp
  have r: "laundromat None \<in> set (idea_details (owner_collaborates_db None :: string list db))"
    "canView (owner_collaborates_db None) (laundromat None :: string list idea) 1
       \<and> view_filters no_filter (laundromat None)"
    "ideaid (laundromat None :: string list idea) = 1"
    by code_simp+
  have r': "laundromat None \<in> set (idea_details (owner_collaborates_db None :: string db))"
    "canView (owner_collaborates_db None) (laundromat None :: string idea) 1
       \<and> ideas_filters no_search (laundromat None)"
    "ideaid (laundromat None :: string idea) = 1"
    by code_simp+
  note once = each_visible_idea_is_listed_once [OF a b, of 1 no_filter no_search]
  have w: "length (filter (\<lambda>row. ideaid (a_idea row) = ideaid (laundromat None :: string list idea))
        (shown (view_ideas (owner_collaborates_db None) 1 no_filter))) = 1"
    using r(1,2) by (rule once [THEN conjunct2, THEN conjunct1, rule_format])
  have w': "length (filter (\<lambda>row. ideaid (b_idea row) = ideaid (laundromat None :: string idea))
        (shown (ideas (owner_collaborates_db None) 1 no_search))) = 1"
    using r'(1,2)
    by (rule once [THEN conjunct2, THEN conjunct2, THEN conjunct2, THEN conjunct2, THEN conjunct1,
          rule_format])
  from w w' have "length (filter (\<lambda>row. ideaid (a_idea row) = 1)
        (shown (view_ideas (owner_collaborates_db None) 1 no_filter))) = 1"
    "length (filter (\<lambda>row. ideaid (b_idea row) = 1)
        (shown (ideas (owner_collaborates_db None) 1 no_search))) = 1"
    by (simp_all only: r(3) r'(3))
  with a b c v i show ?thesis by blast
qed

section \<open>C8: the filters are conjunctive\<close>

lemma pick_filters:
  assumes "alone a b"
  shows "text_filter (pick a b) t = (text_filter a t \<and> text_filter b t)"
    and "array_filter (pick a b) m = (array_filter a m \<and> array_filter b m)"
    and "min_filter (pick a b) c = (min_filter a c \<and> min_filter b c)"
    and "max_filter (pick a b) c = (max_filter a c \<and> max_filter b c)"
    and "potential_filter (pick a b) p = (potential_filter a p \<and> potential_filter b p)"
    and "potential_fails (pick a b) = (potential_fails a \<or> potential_fails b)"
  using assms
  by (auto simp: alone_def pick_def text_filter_def array_filter_def min_filter_def
      max_filter_def potential_filter_def potential_fails_def)

lemma view_filters_both:
  "view_apart q1 q2 \<Longrightarrow> view_filters (view_both q1 q2) r = (view_filters q1 r \<and> view_filters q2 r)"
  by (auto simp: view_apart_def view_both_def view_filters_def pick_filters)

lemma ideas_filters_both:
  "ideas_apart q1 q2 \<Longrightarrow> ideas_filters (ideas_both q1 q2) r = (ideas_filters q1 r \<and> ideas_filters q2 r)"
  by (auto simp: ideas_apart_def ideas_both_def ideas_filters_def pick_filters)

lemma potential_fails_filter: "potential_fails v \<Longrightarrow> \<not> potential_filter v col"
  by (auto simp: potential_fails_def potential_filter_def split: sum.splits)

lemma shown_view_ideas_ids:
  "(\<lambda>row. ideaid (a_idea row)) ` set (shown (view_ideas db userId q))
     = ideaid ` {r \<in> set (idea_details db). canView db r userId \<and> view_filters q r}"
proof (cases "view_fails q")
  case True
  then have "\<And>r. \<not> view_filters q r"
    by (simp add: view_fails_def view_filters_def potential_fails_filter)
  with True show ?thesis by (simp add: shown_def view_ideas_def)
next
  case False
  then obtain rows where v: "view_ideas db userId q = Inr rows"
    by (simp add: view_ideas_def)
  show ?thesis
  proof (rule set_eqI, rule iffI)
    fix i assume "i \<in> (\<lambda>row. ideaid (a_idea row)) ` set (shown (view_ideas db userId q))"
    then obtain row where "row \<in> set rows" and "i = ideaid (a_idea row)"
      by (auto simp: v shown_def)
    with view_row_viewable [OF v, of row]
    show "i \<in> ideaid ` {r \<in> set (idea_details db). canView db r userId \<and> view_filters q r}"
      by blast
  next
    fix i assume "i \<in> ideaid ` {r \<in> set (idea_details db). canView db r userId \<and> view_filters q r}"
    then obtain r where "r \<in> set (idea_details db)" "canView db r userId" "view_filters q r" "i = ideaid r"
      by auto
    with view_ideas_lists [OF v, of r]
    show "i \<in> (\<lambda>row. ideaid (a_idea row)) ` set (shown (view_ideas db userId q))"
      by (auto simp: v shown_def)
  qed
qed

lemma shown_ideas_ids:
  "(\<lambda>row. ideaid (b_idea row)) ` set (shown (ideas db userId q))
     = ideaid ` {r \<in> set (idea_details db). canView db r userId \<and> ideas_filters q r}"
proof (cases "ideas_fails q")
  case True
  then have "\<And>r. \<not> ideas_filters q r"
    by (simp add: ideas_fails_def ideas_filters_def potential_fails_filter)
  with True show ?thesis by (simp add: shown_def ideas_def)
next
  case False
  then obtain rows where v: "ideas db userId q = Inr rows"
    by (simp add: ideas_def)
  show ?thesis
  proof (rule set_eqI, rule iffI)
    fix i assume "i \<in> (\<lambda>row. ideaid (b_idea row)) ` set (shown (ideas db userId q))"
    then obtain row where "row \<in> set rows" and "i = ideaid (b_idea row)"
      by (auto simp: v shown_def)
    with ideas_row_viewable [OF v, of row]
    show "i \<in> ideaid ` {r \<in> set (idea_details db). canView db r userId \<and> ideas_filters q r}"
      by force
  next
    fix i assume "i \<in> ideaid ` {r \<in> set (idea_details db). canView db r userId \<and> ideas_filters q r}"
    then obtain r where "r \<in> set (idea_details db)" "canView db r userId" "ideas_filters q r" "i = ideaid r"
      by auto
    with ideas_lists [OF v, of r] obtain row where "row \<in> set rows" and "i = ideaid (b_idea row)"
      by auto
    then show "i \<in> (\<lambda>row. ideaid (b_idea row)) ` set (shown (ideas db userId q))"
      by (simp add: v shown_def)
  qed
qed

lemma image_ideaid_Int:
  assumes "db_ok db"
  shows "ideaid ` {r \<in> set (idea_details db). P r \<and> Q r \<and> R r}
     = ideaid ` {r \<in> set (idea_details db). P r \<and> Q r} \<inter> ideaid ` {r \<in> set (idea_details db). P r \<and> R r}"
proof -
  have "inj_on ideaid (set (idea_details db))"
    using assms by (simp add: db_ok_def distinct_map)
  then have "ideaid ` ({r \<in> set (idea_details db). P r \<and> Q r} \<inter> {r \<in> set (idea_details db). P r \<and> R r})
     = ideaid ` {r \<in> set (idea_details db). P r \<and> Q r} \<inter> ideaid ` {r \<in> set (idea_details db). P r \<and> R r}"
    by (rule inj_on_image_Int) auto
  moreover have "{r \<in> set (idea_details db). P r \<and> Q r} \<inter> {r \<in> set (idea_details db). P r \<and> R r}
     = {r \<in> set (idea_details db). P r \<and> Q r \<and> R r}"
    by auto
  ultimately show ?thesis by simp
qed

text \<open>
  C8: for every user and every two queries that supply different filters, on tables
  that satisfy the constraints of the data model, the idea ids listed with both queries
  applied together are the intersection of the idea ids listed with each query alone,
  and every idea listed with both passes every filter of the one and of the other. A
  filter whose parameter is not supplied passes every idea.
\<close>

theorem filters_are_conjunctive:
  assumes "db_ok db" and "db_ok db'" and "view_apart q1 q2" and "ideas_apart s1 s2"
  shows "set (map (\<lambda>row. ideaid (a_idea row)) (shown (view_ideas db userId (view_both q1 q2))))
           = set (map (\<lambda>row. ideaid (a_idea row)) (shown (view_ideas db userId q1)))
             \<inter> set (map (\<lambda>row. ideaid (a_idea row)) (shown (view_ideas db userId q2)))
       \<and> (\<forall>row\<in>set (shown (view_ideas db userId (view_both q1 q2))).
            view_filters q1 (a_idea row) \<and> view_filters q2 (a_idea row))
       \<and> set (map (\<lambda>row. ideaid (b_idea row)) (shown (ideas db' userId (ideas_both s1 s2))))
           = set (map (\<lambda>row. ideaid (b_idea row)) (shown (ideas db' userId s1)))
             \<inter> set (map (\<lambda>row. ideaid (b_idea row)) (shown (ideas db' userId s2)))
       \<and> (\<forall>row\<in>set (shown (ideas db' userId (ideas_both s1 s2))).
            ideas_filters s1 (b_idea row) \<and> ideas_filters s2 (b_idea row))"
proof (intro conjI ballI)
  show "set (map (\<lambda>row. ideaid (a_idea row)) (shown (view_ideas db userId (view_both q1 q2))))
           = set (map (\<lambda>row. ideaid (a_idea row)) (shown (view_ideas db userId q1)))
             \<inter> set (map (\<lambda>row. ideaid (a_idea row)) (shown (view_ideas db userId q2)))"
    unfolding set_map shown_view_ideas_ids view_filters_both [OF assms(3)]
    by (rule image_ideaid_Int [OF assms(1)])
  show "set (map (\<lambda>row. ideaid (b_idea row)) (shown (ideas db' userId (ideas_both s1 s2))))
           = set (map (\<lambda>row. ideaid (b_idea row)) (shown (ideas db' userId s1)))
             \<inter> set (map (\<lambda>row. ideaid (b_idea row)) (shown (ideas db' userId s2)))"
    unfolding set_map shown_ideas_ids ideas_filters_both [OF assms(4)]
    by (rule image_ideaid_Int [OF assms(2)])
next
  fix row assume "row \<in> set (shown (view_ideas db userId (view_both q1 q2)))"
  then obtain rows where "view_ideas db userId (view_both q1 q2) = Inr rows" and "row \<in> set rows"
    by (cases "view_ideas db userId (view_both q1 q2)") (auto simp: shown_def)
  then have "view_filters (view_both q1 q2) (a_idea row)"
    using view_row_viewable by blast
  then show "view_filters q1 (a_idea row)" "view_filters q2 (a_idea row)"
    by (simp_all add: view_filters_both [OF assms(3)])
next
  fix row assume "row \<in> set (shown (ideas db' userId (ideas_both s1 s2)))"
  then obtain rows where "ideas db' userId (ideas_both s1 s2) = Inr rows" and "row \<in> set rows"
    by (cases "ideas db' userId (ideas_both s1 s2)") (auto simp: shown_def)
  then obtain r where "b_idea row = r\<lparr>createdat := None, updatedat := None\<rparr>"
    and "ideas_filters (ideas_both s1 s2) r"
    using ideas_row_viewable by blast
  then show "ideas_filters s1 (b_idea row)" "ideas_filters s2 (b_idea row)"
    by (simp_all add: filters_columns ideas_filters_both [OF assms(4)])
qed

theorem filters_are_conjunctive_witness:
  "db_ok (example_db None :: string list db)
   \<and> db_ok (example_db None :: string db)
   \<and> view_apart (no_filter\<lparr>q_ideaname := Some ''o''\<rparr>) (no_filter\<lparr>q_maxcost := Some ''1000''\<rparr>)
   \<and> ideas_apart (no_search\<lparr>searchName := Some ''o''\<rparr>) (no_search\<lparr>minCost := Some ''100''\<rparr>)
   \<and> set (map (\<lambda>row. ideaid (a_idea row)) (shown (view_ideas (example_db None) 1
        (view_both (no_filter\<lparr>q_ideaname := Some ''o''\<rparr>) (no_filter\<lparr>q_maxcost := Some ''1000''\<rparr>)))))
      = set (map (\<lambda>row. ideaid (a_idea row)) (shown (view_ideas (example_db None) 1
          (no_filter\<lparr>q_ideaname := Some ''o''\<rparr>))))
        \<inter> set (map (\<lambda>row. ideaid (a_idea row)) (shown (view_ideas (example_db None) 1
          (no_filter\<lparr>q_maxcost := Some ''1000''\<rparr>))))
   \<and> set (map (\<lambda>row. ideaid (b_idea row)) (shown (ideas (example_db None) 1
        (ideas_both (no_search\<lparr>searchName := Some ''o''\<rparr>) (no_search\<lparr>minCost := Some ''100''\<rparr>)))))
      = set (map (\<lambda>row. ideaid (b_idea row)) (shown (ideas (example_db None) 1
          (no_search\<lparr>searchName := Some ''o''\<rparr>))))
        \<inter> set (map (\<lambda>row. ideaid (b_idea row)) (shown (ideas (example_db None) 1
          (no_search\<lparr>minCost := Some ''100''\<rparr>))))
   \<and> map (\<lambda>row. ideaid (a_idea row)) (shown (view_ideas (example_db None) 1
        (no_filter\<lparr>q_ideaname := Some ''o''\<rparr>))) = [1, 2]
   \<and> map (\<lambda>row. ideaid (a_idea row)) (shown (view_ideas (example_db None) 1
        (no_filter\<lparr>q_maxcost := Some ''1000''\<rparr>))) = [2]"
proof -
  have a: "db_ok (example_db None :: string list db)"
    by code_simp
  have b: "db_ok (example_db None :: string db)"
    by code_simp
  have c: "view_apart (no_filter\<lparr>q_ideaname := Some ''o''\<rparr>) (no_filter\<lparr>q_maxcost := Some ''1000''\<rparr>)"
    by code_simp
  have d: "ideas_apart (no_search\<lparr>searchName := Some ''o''\<rparr>) (no_search\<lparr>minCost := Some ''100''\<rparr>)"
    by code_simp
  have e: "map (\<lambda>row. ideaid (a_idea row)) (shown (view_ideas (example_db None) 1
        (no_filter\<lparr>q_ideaname := Some ''o''\<rparr>))) = [1, 2]"
    by code_simp
  have f: "map (\<lambda>row. ideaid (a_idea row)) (shown (view_ideas (example_db None) 1
        (no_filter\<lparr>q_maxcost := Some ''1000''\<rparr>))) = [2]"
    by code_simp
  from filters_are_conjunctive [OF a b c d, of 1] a b c d e f show ?thesis
    by blast
qed

section \<open>C9: the order of the listing\<close>

lemma view_ideas_sorted:
  assumes "view_ideas db userId q = Inr rows"
  shows "sorted_wrt (\<lambda>a b. created_ms b \<le> created_ms a) rows"
proof -
  have rows: "rows = sort_key (\<lambda>row. - created_ms row) (myIdeas db userId q @ sharedIdeas db userId q)"
    using assms by (auto simp: view_ideas_def split: if_splits)
  have "sorted (map (\<lambda>row. - created_ms row) rows)"
    unfolding rows by (rule sorted_sort_key)
  then show ?thesis by (simp add: sorted_map)
qed

lemma view_ideas_stable:
  assumes "view_ideas db userId q = Inr rows"
  shows "filter (\<lambda>row. created_ms row = t) rows
     = filter (\<lambda>row. created_ms row = t) (myIdeas db userId q @ sharedIdeas db userId q)"
proof -
  have rows: "rows = sort_key (\<lambda>row. - created_ms row) (myIdeas db userId q @ sharedIdeas db userId q)"
    using assms by (auto simp: view_ideas_def split: if_splits)
  have "filter (\<lambda>row. - created_ms row = - t) rows
     = filter (\<lambda>row. - created_ms row = - t) (myIdeas db userId q @ sharedIdeas db userId q)"
    unfolding rows by (rule sort_key_stable)
  then show ?thesis by simp
qed

lemma ideas_sorted:
  assumes ok: "db_ok db" and i: "ideas db userId q = Inr rows"
  shows "sorted_wrt (\<lambda>a b. ideaid (b_idea b) < ideaid (b_idea a)) rows"
proof -
  let ?ids = "map (\<lambda>row. - ideaid (b_idea row)) rows"
  have "?ids = map (\<lambda>rs. - ideaid (fst rs)) (sort_key (\<lambda>rs. - ideaid (fst rs))
      (group_by (\<lambda>rs. (ideaid (fst rs), map_option s_userid (snd rs))) [] (joined_rows db userId q)))"
    unfolding ideas_rows [OF i] by (simp add: ideas_row_of_def comp_def)
  then have s: "sorted ?ids"
    by (simp only: sorted_sort_key)
  have "distinct (map uminus (map (\<lambda>row. ideaid (b_idea row)) rows))"
    using distinct_ideas [OF ok i] by (subst distinct_map) (simp add: inj_on_def)
  then have "distinct ?ids" by (simp add: comp_def)
  with s have "sorted_wrt (<) ?ids"
    by (simp add: strict_sorted_iff)
  then show ?thesis
    by (simp add: sorted_wrt_map)
qed

text \<open>
  C9, as stated, says that the listing is sorted newest first by creation timestamp and
  falls back to descending idea id when the timestamp is absent or tied. In
  \<^verbatim>\<open>index.js\<close> the two ideas of the example tables have the same creation timestamp
  and are listed with id 1 before id 2; with no creation timestamp on either they are
  again listed with id 1 before id 2.
\<close>

theorem listing_order_counterexample:
  "view_ideas (example_db None) 1 no_filter
     = Inr [\<lparr>a_idea = laundromat None, a_creator = Some alice, is_owner = True\<rparr>,
            \<lparr>a_idea = kiosk None, a_creator = Some alice, is_owner = True\<rparr>]
   \<and> createdat (laundromat None :: string list idea) = Some 1000
   \<and> createdat (kiosk None :: string list idea) = Some 1000
   \<and> ideaid (laundromat None :: string list idea) = 1
   \<and> ideaid (kiosk None :: string list idea) = 2
   \<and> view_ideas (undated_db None) 1 no_filter
     = Inr [\<lparr>a_idea = (laundromat None)\<lparr>createdat := None\<rparr>, a_creator = Some alice, is_owner = True\<rparr>,
            \<lparr>a_idea = (kiosk None)\<lparr>createdat := None\<rparr>, a_creator = Some alice, is_owner = True\<rparr>]"
  by code_simp


text \<open>
  C9, amended: in \<^verbatim>\<open>index.js\<close> the listing is in order of creation timestamp, newest
  first, a null timestamp counting as the epoch, and ideas with the same timestamp stay
  in the order of the two queries (the user's own ideas before the shared ones), with no
  fallback to the idea id; in the other file the listing is in strictly descending order
  of idea id, on tables that satisfy the constraints of the data model, and the creation
  timestamp is not read.
\<close>

theorem listing_order:
  "(\<forall>rows. view_ideas db userId q = Inr rows \<longrightarrow>
      sorted_wrt (\<lambda>a b. created_ms b \<le> created_ms a) rows
      \<and> (\<forall>t. filter (\<lambda>row. created_ms row = t) rows
             = filter (\<lambda>row. created_ms row = t) (myIdeas db userId q @ sharedIdeas db userId q)))
   \<and> (db_ok db' \<longrightarrow> (\<forall>rows. ideas db' userId q' = Inr rows \<longrightarrow>
      sorted_wrt (\<lambda>a b. ideaid (b_idea b) < ideaid (b_idea a)) rows))"
  using view_ideas_sorted view_ideas_stable ideas_sorted by blast

theorem listing_order_witness:
  "view_ideas (example_db None) 1 no_filter
     = Inr [\<lparr>a_idea = laundromat None, a_creator = Some alice, is_owner = True\<rparr>,
            \<lparr>a_idea = kiosk None, a_creator = Some alice, is_owner = True\<rparr>]
   \<and> sorted_wrt (\<lambda>a b. created_ms b \<le> created_ms a)
        [\<lparr>a_idea = laundromat None, a_creator = Some alice, is_owner = True\<rparr>,
         \<lparr>a_idea = kiosk None, a_creator = Some alice, is_owner = True\<rparr>]
   \<and> db_ok (example_db None :: string db)
   \<and> ideas (example_db None) 1 no_search
     = Inr [\<lparr>b_idea = (kiosk None)\<lparr>createdat := None\<rparr>, b_owner = Some alice,
              b_collaborators = []\<rparr>,
            \<lparr>b_idea = (laundromat None)\<lparr>createdat := None\<rparr>, b_owner = Some alice,
              b_collaborators = [bob]\<rparr>]
   \<and> sorted_wrt (\<lambda>a b. ideaid (b_idea b) < ideaid (b_idea a))
        [\<lparr>b_idea = (kiosk None)\<lparr>createdat := None\<rparr>, b_owner = Some alice,
              b_collaborators = []\<rparr>,
            \<lparr>b_idea = (laundromat None)\<lparr>createdat := None\<rparr>, b_owner = Some alice,
              b_collaborators = [bob]\<rparr>]"
proof -
  have v: "view_ideas (example_db None) 1 no_filter
     = Inr [\<lparr>a_idea = laundromat None, a_creator = Some alice, is_owner = True\<rparr>,
            \<lparr>a_idea = kiosk None, a_creator = Some alice, is_owner = True\<rparr>]"
    by code_simp
  have b: "db_ok (example_db None :: string db)"
    by code_simp
  have i: "ideas (example_db None) 1 no_search
     = Inr [\<lparr>b_idea = (kiosk None)\<lparr>createdat := None\<rparr>, b_owner = Some alice,
              b_collaborators = []\<rparr>,
            \<lparr>b_idea = (laundromat None)\<lparr>createdat := None\<rparr>, b_owner = Some alice,
              b_collaborators = [bob]\<rparr>]"
    by code_simp
  from listing_order [of "example_db None" 1 no_filter "example_db None" no_search] v b i
  show ?thesis by blast
qed


section \<open>C2: deleting an idea\<close>

lemma first_idea_Some:
  "first_idea db i = Some idea \<Longrightarrow> idea \<in> set (idea_details db) \<and> ideaid idea = i"
  by (auto simp: first_idea_def find_Some_iff in_set_conv_nth)

lemma first_idea_None: "first_idea db i = None \<longleftrightarrow> \<not> idea_exists db i"
  by (auto simp: first_idea_def idea_exists_def find_None_iff list_ex_iff)

lemma first_collaboration_None:
  "first_collaboration db i u = None \<longleftrightarrow> \<not> collaborationExists db i u"
  by (auto simp: first_collaboration_def collaborationExists_def find_None_iff list_ex_iff)

lemma idea_exists_filter:
  "idea_exists (db\<lparr>idea_details := filter (\<lambda>r. ideaid r \<noteq> i) (idea_details db), collaborations := cs\<rparr>) j
     = (idea_exists db j \<and> j \<noteq> i)"
  by (auto simp: idea_exists_def list_ex_iff)

lemma db_ok_delete_collaborations:
  "db_ok db \<Longrightarrow> db_ok (delete_collaborations db P)"
  by (auto simp: db_ok_def delete_collaborations_def distinct_map_filter list_all_iff
      idea_exists_def user_exists_def)

lemma db_ok_deleted:
  assumes "db_ok db"
  shows "db_ok (db\<lparr>idea_details := filter (\<lambda>r. ideaid r \<noteq> i) (idea_details db),
                  collaborations := filter (\<lambda>c. c_ideaid c \<noteq> i) (collaborations db)\<rparr>)"
  using assms
  unfolding db_ok_def list_all_iff idea_exists_def user_exists_def list_ex_iff
  by (simp add: distinct_map_filter) metis

lemma delete_after_collaborations:
  "delete_idea_row od (delete_collaborations db (\<lambda>c. c_ideaid c = i)) i
     = Inr (db\<lparr>idea_details := filter (\<lambda>r. ideaid r \<noteq> i) (idea_details db),
               collaborations := filter (\<lambda>c. c_ideaid c \<noteq> i) (collaborations db)\<rparr>)"
  by (cases od) (auto simp: delete_idea_row_def delete_collaborations_def list_ex_iff)

text \<open>
  C2: for every idea id and user id, deleting an idea as the owner of an existing idea
  removes the idea row and every collaboration row of the idea, so that afterwards no
  collaboration row has that idea id; as anyone else, or for an idea that does not
  exist, it removes nothing. The file with \<^verbatim>\<open>/deleteIdea\<close> deletes the collaborations
  in a statement of its own before the idea, so the second statement succeeds whatever
  the foreign key does on delete, and the tables between the two statements and after
  them satisfy the constraints. \<^verbatim>\<open>index.js\<close> deletes only the idea row: there the
  collaborations go with it in the same statement, by the cascade of the data model.
\<close>

theorem deleting_an_idea_deletes_its_collaborations:
  "(\<forall>idea. first_idea db ideaId = Some idea \<and> userid idea = userId \<longrightarrow>
      deleteIdea od db userId ideaId
        = (Redirect IdeasPage,
           db\<lparr>idea_details := filter (\<lambda>r. ideaid r \<noteq> ideaId) (idea_details db),
              collaborations := filter (\<lambda>c. c_ideaid c \<noteq> ideaId) (collaborations db)\<rparr>)
      \<and> delete_idea Cascade db userId ideaId
        = (Redirect IdeasPage,
           db\<lparr>idea_details := filter (\<lambda>r. ideaid r \<noteq> ideaId) (idea_details db),
              collaborations := filter (\<lambda>c. c_ideaid c \<noteq> ideaId) (collaborations db)\<rparr>)
      \<and> \<not> idea_exists (snd (deleteIdea od db userId ideaId)) ideaId
      \<and> \<not> list_ex (\<lambda>c. c_ideaid c = ideaId) (collaborations (snd (deleteIdea od db userId ideaId)))
      \<and> \<not> list_ex (\<lambda>c. c_ideaid c = ideaId)
            (collaborations (delete_collaborations db (\<lambda>c. c_ideaid c = ideaId)))
      \<and> idea_details (delete_collaborations db (\<lambda>c. c_ideaid c = ideaId)) = idea_details db
      \<and> (db_ok db \<longrightarrow> db_ok (delete_collaborations db (\<lambda>c. c_ideaid c = ideaId))
            \<and> db_ok (snd (deleteIdea od db userId ideaId))))
   \<and> (\<forall>idea. first_idea db ideaId = Some idea \<and> userid idea \<noteq> userId \<longrightarrow>
        deleteIdea od db userId ideaId = (Redirect IdeasPage, db)
        \<and> delete_idea od db userId ideaId = (Redirect IdeasPage, db))
   \<and> (first_idea db ideaId = None \<longrightarrow>
        deleteIdea od db userId ideaId = (Redirect IdeasPage, db)
        \<and> delete_idea od db userId ideaId = (Redirect IdeasPage, db))"
proof (intro conjI allI impI)
  fix idea assume o: "first_idea db ideaId = Some idea \<and> userid idea = userId"
  show d: "deleteIdea od db userId ideaId
        = (Redirect IdeasPage,
           db\<lparr>idea_details := filter (\<lambda>r. ideaid r \<noteq> ideaId) (idea_details db),
              collaborations := filter (\<lambda>c. c_ideaid c \<noteq> ideaId) (collaborations db)\<rparr>)"
    using o by (simp add: deleteIdea_def delete_after_collaborations)
  show "delete_idea Cascade db userId ideaId
        = (Redirect IdeasPage,
           db\<lparr>idea_details := filter (\<lambda>r. ideaid r \<noteq> ideaId) (idea_details db),
              collaborations := filter (\<lambda>c. c_ideaid c \<noteq> ideaId) (collaborations db)\<rparr>)"
    using o by (simp add: delete_idea_def delete_idea_row_def)
  show "\<not> idea_exists (snd (deleteIdea od db userId ideaId)) ideaId"
    unfolding d by (simp add: idea_exists_filter)
  show "\<not> list_ex (\<lambda>c. c_ideaid c = ideaId) (collaborations (snd (deleteIdea od db userId ideaId)))"
    unfolding d by (simp add: list_ex_iff)
  show "\<not> list_ex (\<lambda>c. c_ideaid c = ideaId)
            (collaborations (delete_collaborations db (\<lambda>c. c_ideaid c = ideaId)))"
    by (simp add: delete_collaborations_def list_ex_iff)
  show "idea_details (delete_collaborations db (\<lambda>c. c_ideaid c = ideaId)) = idea_details db"
    by (simp add: delete_collaborations_def)
  assume ok: "db_ok db"
  show "db_ok (delete_collaborations db (\<lambda>c. c_ideaid c = ideaId))"
    using ok by (rule db_ok_delete_collaborations)
  show "db_ok (snd (deleteIdea od db userId ideaId))"
    unfolding d using ok by (simp add: db_ok_deleted)
next
  fix idea assume "first_idea db ideaId = Some idea \<and> userid idea \<noteq> userId"
  then show "deleteIdea od db userId ideaId = (Redirect IdeasPage, db)"
    "delete_idea od db userId ideaId = (Redirect IdeasPage, db)"
    by (simp_all add: deleteIdea_def delete_idea_def)
next
  assume "first_idea db ideaId = None"
  then show "deleteIdea od db userId ideaId = (Redirect IdeasPage, db)"
    "delete_idea od db userId ideaId = (Redirect IdeasPage, db)"
    by (simp_all add: deleteIdea_def delete_idea_def)
qed

theorem deleting_an_idea_deletes_its_collaborations_witness:
  "first_idea (example_db None :: string db) 1 = Some (laundromat None)
   \<and> userid (laundromat None :: string idea) = 1
   \<and> idea_details (snd (deleteIdea Restrict (example_db None :: string db) 1 1)) = [kiosk None]
   \<and> collaborations (snd (deleteIdea Restrict (example_db None :: string db) 1 1)) = []
   \<and> \<not> idea_exists (snd (deleteIdea Restrict (example_db None :: string db) 1 1)) 1
   \<and> deleteIdea Restrict (example_db None :: string db) 2 1 = (Redirect IdeasPage, example_db None)"
proof -
  have a: "first_idea (example_db None :: string db) 1 = Some (laundromat None)"
    by code_simp
  have b: "userid (laundromat None :: string idea) = 1"
    by code_simp
  have c: "userid (laundromat None :: string idea) \<noteq> 2"
    by code_simp
  have f: "idea_details (snd (deleteIdea Restrict (example_db None :: string db) 1 1)) = [kiosk None]"
    "collaborations (snd (deleteIdea Restrict (example_db None :: string db) 1 1)) = []"
    by code_simp+
  have d: "\<not> idea_exists (snd (deleteIdea Restrict (example_db None :: string db) 1 1)) 1"
    using deleting_an_idea_deletes_its_collaborations
      [where db = "example_db None :: string db" and ideaId = 1 and userId = 1 and od = Restrict] a b
    by blast
  have e: "deleteIdea Restrict (example_db None :: string db) 2 1 = (Redirect IdeasPage, example_db None)"
    using deleting_an_idea_deletes_its_collaborations
      [where db = "example_db None :: string db" and ideaId = 1 and userId = 2 and od = Restrict] a c
    by blast
  from a b f d e show ?thesis by blast
qed

text \<open>
  With a foreign key that restricts instead, the one statement of \<^verbatim>\<open>index.js\<close> fails
  for an idea that has a collaboration, and nothing is deleted.
\<close>

lemma delete_idea_restrict:
  assumes "first_idea db ideaId = Some idea" and "list_ex (\<lambda>c. c_ideaid c = ideaId) (collaborations db)"
  shows "delete_idea Restrict db userId ideaId = (Redirect IdeasPage, db)"
  using assms first_idea_None [of db ideaId]
  by (auto simp: delete_idea_def delete_idea_row_def)

section \<open>C4: leaving a collaboration and removing a collaborator\<close>

lemma find_collaboration_unique:
  assumes "distinct (map collaborationid cs)" and "c \<in> set cs"
  shows "find (\<lambda>x. collaborationid x = collaborationid c) cs = Some c"
  using assms by (induction cs) auto

lemma removed_by_handle:
  assumes ok: "db_ok db" and c: "c \<in> set (collaborations db)"
    and gone: "c \<notin> set (collaborations (snd (handle dflt od db userId req)))"
    and other: "c_userid c \<noteq> userId"
  shows "\<exists>idea. first_idea db (c_ideaid c) = Some idea \<and> userid idea = userId"
proof (cases req)
  case (POST_addIdea body)
  with c gone show ?thesis
    by (auto simp: addIdea_def insert_idea_def split: if_splits sum.splits)
next
  case (POST_editIdea ideaId body)
  with c gone show ?thesis
    by (auto simp: editIdea_def update_idea_def split: if_splits sum.splits option.splits)
next
  case (POST_deleteIdea ideaId)
  with c gone show ?thesis
    by (auto simp: deleteIdea_def delete_idea_row_def delete_collaborations_def Let_def
        split: if_splits sum.splits option.splits on_delete.splits)
next
  case (POST_addCollaborator ideaId u)
  with c gone show ?thesis
    by (auto simp: addCollaborator_def insert_collaboration_def split: if_splits sum.splits option.splits)
next
  case (POST_removeCollaborator cid)
  show ?thesis
  proof (cases "collaborationid c = cid")
    case True
    from ok have "distinct (map collaborationid (collaborations db))"
      by (simp add: db_ok_def)
    then have "find (\<lambda>x. collaborationid x = cid) (collaborations db) = Some c"
      using c True find_collaboration_unique by blast
    with POST_removeCollaborator c gone show ?thesis
      by (auto simp: removeCollaborator_def delete_collaborations_def split: if_splits option.splits)
  next
    case False
    with POST_removeCollaborator c gone show ?thesis
      by (auto simp: removeCollaborator_def delete_collaborations_def split: if_splits option.splits)
  qed
next
  case (POST_leaveCollaboration ideaId)
  with c gone other show ?thesis
    by (auto simp: leaveCollaboration_def delete_collaborations_def)
qed

lemma removed_by_index_handle:
  assumes c: "c \<in> set (collaborations db)"
    and gone: "c \<notin> set (collaborations (snd (index_handle dflt od now db userId req)))"
  shows "\<exists>idea. first_idea db (c_ideaid c) = Some idea \<and> userid idea = userId"
proof (cases req)
  case (POST_add_idea body)
  with c gone show ?thesis
    by (auto simp: add_idea_def insert_idea_def bind_def split: if_splits sum.splits)
next
  case (POST_edit_idea ideaId body)
  with c gone show ?thesis
    by (auto simp: edit_idea_def update_idea_def bind_def split: if_splits sum.splits option.splits)
next
  case (POST_add_collaborator ideaId u)
  with c gone show ?thesis
    by (auto simp: add_collaborator_def insert_collaboration_ignore_def insert_collaboration_def bind_def
        split: if_splits sum.splits option.splits)
next
  case (POST_remove_collaborator ideaId u)
  with c gone show ?thesis
    by (auto simp: remove_collaborator_def delete_collaborations_def split: if_splits option.splits)
next
  case (POST_delete_idea ideaId)
  with c gone show ?thesis
    by (auto simp: delete_idea_def delete_idea_row_def split: if_splits sum.splits option.splits on_delete.splits)
qed

text \<open>
  C4: for every idea and every user, \<^verbatim>\<open>leaveCollaboration\<close> deletes the collaboration
  row of that user for the idea and nothing else, with no test of ownership, so a
  collaborator who is not the owner leaves by it. For every request of either file, on
  tables that satisfy the constraints of the data model, a collaboration row of another
  user is deleted only when the session user owns the idea of the row. In \<^verbatim>\<open>index.js\<close>
  every deletion of a collaboration row, also of one's own, needs the owner.
\<close>

theorem a_collaborator_may_leave_only_the_owner_removes_others:
  "\<not> collaborationExists (snd (leaveCollaboration db userId ideaId)) ideaId userId
   \<and> collaborations (snd (leaveCollaboration db userId ideaId))
       = filter (\<lambda>c. \<not> (c_ideaid c = ideaId \<and> c_userid c = userId)) (collaborations db)
   \<and> idea_details (snd (leaveCollaboration db userId ideaId)) = idea_details db
   \<and> (db_ok db' \<longrightarrow>
        (\<forall>c\<in>set (collaborations db').
           c \<notin> set (collaborations (snd (handle dflt od db' userId req))) \<and> c_userid c \<noteq> userId \<longrightarrow>
           (\<exists>idea. first_idea db' (c_ideaid c) = Some idea \<and> userid idea = userId)))
   \<and> (\<forall>c\<in>set (collaborations db'').
           c \<notin> set (collaborations (snd (index_handle dflt od now db'' userId req'))) \<longrightarrow>
           (\<exists>idea. first_idea db'' (c_ideaid c) = Some idea \<and> userid idea = userId))"
proof (intro conjI impI ballI)
  show "\<not> collaborationExists (snd (leaveCollaboration db userId ideaId)) ideaId userId"
    by (simp add: leaveCollaboration_def delete_collaborations_def collaborationExists_def list_ex_iff)
  show "collaborations (snd (leaveCollaboration db userId ideaId))
       = filter (\<lambda>c. \<not> (c_ideaid c = ideaId \<and> c_userid c = userId)) (collaborations db)"
    by (simp add: leaveCollaboration_def delete_collaborations_def)
  show "idea_details (snd (leaveCollaboration db userId ideaId)) = idea_details db"
    by (simp add: leaveCollaboration_def delete_collaborations_def)
next
  fix c assume "db_ok db'" "c \<in> set (collaborations db')"
    "c \<notin> set (collaborations (snd (handle dflt od db' userId req))) \<and> c_userid c \<noteq> userId"
  then show "\<exists>idea. first_idea db' (c_ideaid c) = Some idea \<and> userid idea = userId"
    using removed_by_handle by blast
next
  fix c assume "c \<in> set (collaborations db'')"
    "c \<notin> set (collaborations (snd (index_handle dflt od now db'' userId req')))"
  then show "\<exists>idea. first_idea db'' (c_ideaid c) = Some idea \<and> userid idea = userId"
    using removed_by_index_handle by blast
qed

theorem a_collaborator_may_leave_only_the_owner_removes_others_witness:
  "collaborationExists (example_db None :: string db) 1 2
   \<and> first_idea (example_db None :: string db) 1 = Some (laundromat None)
   \<and> userid (laundromat None :: string idea) = 1
   \<and> \<not> collaborationExists (snd (leaveCollaboration (example_db None :: string db) 2 1)) 1 2
   \<and> db_ok (example_db None :: string db)
   \<and> shared_with_bob \<in> set (collaborations (example_db None :: string db))
   \<and> shared_with_bob \<notin> set (collaborations
         (snd (handle no_defaults Restrict (example_db None) 1 (POST_removeCollaborator 1))))
   \<and> c_userid shared_with_bob \<noteq> 1
   \<and> (\<exists>idea. first_idea (example_db None :: string db) (c_ideaid shared_with_bob) = Some idea
         \<and> userid idea = 1)"
proof -
  have a: "collaborationExists (example_db None :: string db) 1 2"
    "first_idea (example_db None :: string db) 1 = Some (laundromat None)"
    "userid (laundromat None :: string idea) = 1"
    by code_simp+
  have b: "db_ok (example_db None :: string db)"
    by code_simp
  have c: "shared_with_bob \<in> set (collaborations (example_db None :: string db))"
    "shared_with_bob \<notin> set (collaborations
         (snd (handle no_defaults Restrict (example_db None) 1 (POST_removeCollaborator 1))))"
    "c_userid shared_with_bob \<noteq> 1"
    by code_simp+
  have d: "\<not> collaborationExists (snd (leaveCollaboration (example_db None :: string db) 2 1)) 1 2"
    using a_collaborator_may_leave_only_the_owner_removes_others
      [where db = "example_db None :: string db" and userId = 2 and ideaId = 1]
    by blast
  have e: "\<exists>idea. first_idea (example_db None :: string db) (c_ideaid shared_with_bob) = Some idea
         \<and> userid idea = 1"
    using a_collaborator_may_leave_only_the_owner_removes_others
      [where db' = "example_db None" and userId = 1 and dflt = no_defaults and od = Restrict
        and req = "POST_removeCollaborator 1"] b c
    by blast
  from a b c d e show ?thesis by blast
qed

section \<open>C5: adding a collaborator\<close>

lemma count_after_insert:
  assumes "db_ok db" and "insert_collaboration db i u = Inr db1"
  shows "length (filter (\<lambda>c. c_ideaid c = i \<and> c_userid c = u) (collaborations db1)) = 1"
    and "collaborationExists db1 i u"
    and "idea_details db1 = idea_details db"
  using assms
  by (auto simp: insert_collaboration_def collaborationExists_def list_ex_iff filter_empty_conv
      split: if_splits)

lemma count_existing:
  assumes "db_ok db" and "collaborationExists db i u"
  shows "length (filter (\<lambda>c. c_ideaid c = i \<and> c_userid c = u) (collaborations db)) = 1"
proof -
  from assms(2) obtain c where c: "c \<in> set (collaborations db)" "c_ideaid c = i" "c_userid c = u"
    by (auto simp: collaborationExists_def list_ex_iff)
  from assms(1) have d: "distinct (map (\<lambda>c. (c_ideaid c, c_userid c)) (collaborations db))"
    by (simp add: db_ok_def)
  have "length (filter (\<lambda>x. (c_ideaid x, c_userid x) = (c_ideaid c, c_userid c)) (collaborations db)) = 1"
    using d c(1) by (rule filter_key_eq_one)
  with c show ?thesis by simp
qed

lemma first_idea_collaborations:
  "first_idea (db\<lparr>collaborations := cs, collaborationid_seq := n\<rparr>) i = first_idea db i"
  by (simp add: first_idea_def)

lemma addCollaborator_owner:
  assumes ok: "db_ok db" and idea: "first_idea db ideaId = Some idea" and own: "userid idea = userId"
    and s: "pg_int4_in s = Inr t" and u: "user_exists db t"
  shows "length (filter (\<lambda>c. c_ideaid c = ideaId \<and> c_userid c = t)
           (collaborations (snd (addCollaborator db userId ideaId (Some s))))) = 1
       \<and> first_collaboration (snd (addCollaborator db userId ideaId (Some s))) ideaId t \<noteq> None
       \<and> first_idea (snd (addCollaborator db userId ideaId (Some s))) ideaId = Some idea"
proof (cases "collaborationExists db ideaId t")
  case True
  then obtain c where "first_collaboration db ideaId t = Some c"
    using first_collaboration_None [of db ideaId t] by auto
  then have same: "snd (addCollaborator db userId ideaId (Some s)) = db"
    using idea own s by (simp add: addCollaborator_def)
  show ?thesis
    unfolding same using count_existing [OF ok True] True idea
    by (simp add: first_collaboration_None)
next
  case False
  then have none: "first_collaboration db ideaId t = None"
    by (simp add: first_collaboration_None)
  have "idea_exists db ideaId"
    using idea first_idea_None [of db ideaId] by simp
  with False u obtain db1 where ins: "insert_collaboration db ideaId t = Inr db1"
    by (simp add: insert_collaboration_def)
  then have same: "snd (addCollaborator db userId ideaId (Some s)) = db1"
    using idea own s none by (simp add: addCollaborator_def)
  show ?thesis
    unfolding same using count_after_insert [OF ok ins] idea
    by (simp add: first_collaboration_None first_idea_def)
qed

lemma addCollaborator_again:
  assumes "first_idea db ideaId = Some idea" and "first_collaboration db ideaId t \<noteq> None"
    and "pg_int4_in s = Inr t"
  shows "addCollaborator db userId ideaId (Some s) = (Redirect (EditIdeaPage ideaId), db)"
  using assms by (auto simp: addCollaborator_def)

lemma add_collaborator_owner:
  assumes ok: "db_ok db" and idea: "first_idea db ideaId = Some idea" and own: "userid idea = userId"
    and s: "int4_param (parseInt s) = Inr t" and u: "user_exists db t"
  shows "length (filter (\<lambda>c. c_ideaid c = ideaId \<and> c_userid c = t)
           (collaborations (snd (add_collaborator db userId ideaId (Some s))))) = 1
       \<and> collaborationExists (snd (add_collaborator db userId ideaId (Some s))) ideaId t
       \<and> first_idea (snd (add_collaborator db userId ideaId (Some s))) ideaId = Some idea"
proof (cases "collaborationExists db ideaId t")
  case True
  then have same: "snd (add_collaborator db userId ideaId (Some s)) = db"
    using idea own s by (simp add: add_collaborator_def bind_def insert_collaboration_ignore_def)
  show ?thesis
    unfolding same using count_existing [OF ok True] True idea by simp
next
  case False
  have "idea_exists db ideaId"
    using idea first_idea_None [of db ideaId] by simp
  with False u obtain db1 where ins: "insert_collaboration db ideaId t = Inr db1"
    by (simp add: insert_collaboration_def)
  then have same: "snd (add_collaborator db userId ideaId (Some s)) = db1"
    using idea own s False by (simp add: add_collaborator_def bind_def insert_collaboration_ignore_def)
  show ?thesis
    unfolding same using count_after_insert [OF ok ins] idea
    by (simp add: first_idea_def)
qed

lemma add_collaborator_again:
  assumes "first_idea db ideaId = Some idea" and "collaborationExists db ideaId t"
    and "int4_param (parseInt s) = Inr t"
  shows "add_collaborator db userId ideaId (Some s) = (Redirect (EditIdeaPage ideaId), db)"
    and "insert_collaboration_ignore db ideaId t = Inr db"
  using assms by (auto simp: add_collaborator_def bind_def insert_collaboration_ignore_def)

lemma not_owner_adds_nothing:
  assumes "first_idea db ideaId = None \<or> (\<exists>idea. first_idea db ideaId = Some idea \<and> userid idea \<noteq> userId)"
  shows "addCollaborator db userId ideaId c = (Redirect (EditIdeaPage ideaId), db)"
    and "add_collaborator db userId ideaId c = (Redirect (EditIdeaPage ideaId), db)"
  using assms by (auto simp: addCollaborator_def add_collaborator_def)

text \<open>
  C5: on tables that satisfy the constraints of the data model, for every existing idea
  and every existing target user, adding the target twice as the owner of the idea
  leaves exactly one collaboration row of the idea and the target, and the second
  request changes nothing and raises no error: the file with \<^verbatim>\<open>/addCollaborator\<close>
  finds the row and issues no insert, and the insert of \<^verbatim>\<open>index.js\<close> ignores the
  conflict. A request by anyone but the owner inserts nothing.
\<close>

theorem adding_a_collaborator_is_owner_gated_and_idempotent:
  assumes "db_ok db" and "first_idea db ideaId = Some idea" and "user_exists db t"
  shows "(userid idea = userId \<and> pg_int4_in s = Inr t \<longrightarrow>
            length (filter (\<lambda>c. c_ideaid c = ideaId \<and> c_userid c = t)
              (collaborations (snd (addCollaborator
                 (snd (addCollaborator db userId ideaId (Some s))) userId ideaId (Some s))))) = 1
            \<and> addCollaborator (snd (addCollaborator db userId ideaId (Some s))) userId ideaId (Some s)
                = (Redirect (EditIdeaPage ideaId), snd (addCollaborator db userId ideaId (Some s)))
            \<and> first_collaboration (snd (addCollaborator db userId ideaId (Some s))) ideaId t \<noteq> None)
       \<and> (userid idea = userId \<and> int4_param (parseInt s) = Inr t \<longrightarrow>
            length (filter (\<lambda>c. c_ideaid c = ideaId \<and> c_userid c = t)
              (collaborations (snd (add_collaborator
                 (snd (add_collaborator db userId ideaId (Some s))) userId ideaId (Some s))))) = 1
            \<and> add_collaborator (snd (add_collaborator db userId ideaId (Some s))) userId ideaId (Some s)
                = (Redirect (EditIdeaPage ideaId), snd (add_collaborator db userId ideaId (Some s)))
            \<and> insert_collaboration_ignore (snd (add_collaborator db userId ideaId (Some s))) ideaId t
                = Inr (snd (add_collaborator db userId ideaId (Some s))))
       \<and> (userid idea \<noteq> userId \<longrightarrow>
            addCollaborator db userId ideaId c = (Redirect (EditIdeaPage ideaId), db)
            \<and> add_collaborator db userId ideaId c = (Redirect (EditIdeaPage ideaId), db))"
proof (intro conjI impI)
  assume a: "userid idea = userId \<and> pg_int4_in s = Inr t"
  from addCollaborator_owner [OF assms(1,2) conjunct1 [OF a] conjunct2 [OF a] assms(3)]
  have first: "length (filter (\<lambda>c. c_ideaid c = ideaId \<and> c_userid c = t)
           (collaborations (snd (addCollaborator db userId ideaId (Some s))))) = 1"
    "first_collaboration (snd (addCollaborator db userId ideaId (Some s))) ideaId t \<noteq> None"
    "first_idea (snd (addCollaborator db userId ideaId (Some s))) ideaId = Some idea"
    by simp_all
  show again: "addCollaborator (snd (addCollaborator db userId ideaId (Some s))) userId ideaId (Some s)
                = (Redirect (EditIdeaPage ideaId), snd (addCollaborator db userId ideaId (Some s)))"
    using first(3) first(2) conjunct2 [OF a] by (rule addCollaborator_again)
  show "length (filter (\<lambda>c. c_ideaid c = ideaId \<and> c_userid c = t)
              (collaborations (snd (addCollaborator
                 (snd (addCollaborator db userId ideaId (Some s))) userId ideaId (Some s))))) = 1"
    unfolding again using first(1) by simp
  show "first_collaboration (snd (addCollaborator db userId ideaId (Some s))) ideaId t \<noteq> None"
    by (rule first(2))
next
  assume a: "userid idea = userId \<and> int4_param (parseInt s) = Inr t"
  from add_collaborator_owner [OF assms(1,2) conjunct1 [OF a] conjunct2 [OF a] assms(3)]
  have first: "length (filter (\<lambda>c. c_ideaid c = ideaId \<and> c_userid c = t)
           (collaborations (snd (add_collaborator db userId ideaId (Some s))))) = 1"
    "collaborationExists (snd (add_collaborator db userId ideaId (Some s))) ideaId t"
    "first_idea (snd (add_collaborator db userId ideaId (Some s))) ideaId = Some idea"
    by simp_all
  show again: "add_collaborator (snd (add_collaborator db userId ideaId (Some s))) userId ideaId (Some s)
                = (Redirect (EditIdeaPage ideaId), snd (add_collaborator db userId ideaId (Some s)))"
    using first(3) first(2) conjunct2 [OF a] by (rule add_collaborator_again)
  show "length (filter (\<lambda>c. c_ideaid c = ideaId \<and> c_userid c = t)
              (collaborations (snd (add_collaborator
                 (snd (add_collaborator db userId ideaId (Some s))) userId ideaId (Some s))))) = 1"
    unfolding again using first(1) by simp
  show "insert_collaboration_ignore (snd (add_collaborator db userId ideaId (Some s))) ideaId t
                = Inr (snd (add_collaborator db userId ideaId (Some s)))"
    using first(3) first(2) conjunct2 [OF a] by (rule add_collaborator_again)
next
  assume "userid idea \<noteq> userId"
  with assms(2) show "addCollaborator db userId ideaId c = (Redirect (EditIdeaPage ideaId), db)"
    "add_collaborator db userId ideaId c = (Redirect (EditIdeaPage ideaId), db)"
    using not_owner_adds_nothing by blast+
qed

theorem adding_a_collaborator_is_owner_gated_and_idempotent_witness:
  "db_ok (example_db None :: string db)
   \<and> first_idea (example_db None :: string db) 2 = Some (kiosk None)
   \<and> user_exists (example_db None :: string db) 2
   \<and> userid (kiosk None :: string idea) = 1
   \<and> pg_int4_in ''2'' = Inr 2
   \<and> int4_param (parseInt ''2'') = Inr 2
   \<and> length (filter (\<lambda>c. c_ideaid c = 2 \<and> c_userid c = 2)
        (collaborations (snd (addCollaborator
           (snd (addCollaborator (example_db None :: string db) 1 2 (Some ''2''))) 1 2 (Some ''2''))))) = 1
   \<and> length (filter (\<lambda>c. c_ideaid c = 2 \<and> c_userid c = 2)
        (collaborations (snd (add_collaborator
           (snd (add_collaborator (example_db None :: string db) 1 2 (Some ''2''))) 1 2 (Some ''2''))))) = 1
   \<and> addCollaborator (example_db None :: string db) 2 2 (Some ''2'')
       = (Redirect (EditIdeaPage 2), example_db None)"
proof -
  have a: "db_ok (example_db None :: string db)"
    by code_simp
  have b: "first_idea (example_db None :: string db) 2 = Some (kiosk None)"
    by code_simp
  have c: "user_exists (example_db None :: string db) 2"
    by code_simp
  have d: "userid (kiosk None :: string idea) = 1" "pg_int4_in ''2'' = Inr 2"
    "int4_param (parseInt ''2'') = Inr 2"
    by code_simp+
  have n: "userid (kiosk None :: string idea) \<noteq> 2"
    by code_simp
  have e: "length (filter (\<lambda>c. c_ideaid c = 2 \<and> c_userid c = 2)
        (collaborations (snd (addCollaborator
           (snd (addCollaborator (example_db None :: string db) 1 2 (Some ''2''))) 1 2 (Some ''2''))))) = 1"
    using adding_a_collaborator_is_owner_gated_and_idempotent
      [OF a b c, where userId = 1 and s = "''2''"] d
    by blast
  have e': "length (filter (\<lambda>c. c_ideaid c = 2 \<and> c_userid c = 2)
        (collaborations (snd (add_collaborator
           (snd (add_collaborator (example_db None :: string db) 1 2 (Some ''2''))) 1 2 (Some ''2''))))) = 1"
    using adding_a_collaborator_is_owner_gated_and_idempotent
      [OF a b c, where userId = 1 and s = "''2''"] d
    by blast
  have f: "addCollaborator (example_db None :: string db) 2 2 (Some ''2'')
       = (Redirect (EditIdeaPage 2), example_db None)"
    using adding_a_collaborator_is_owner_gated_and_idempotent
      [OF a b c, where userId = 2 and c = "Some ''2''"] n
    by blast
  from a b c d e e' f show ?thesis by blast
qed

section \<open>The constraints of the data model are kept\<close>

lemma idea_exists_iff: "idea_exists db i \<longleftrightarrow> (\<exists>r\<in>set (idea_details db). ideaid r = i)"
  by (simp add: idea_exists_def list_ex_iff)

lemma user_exists_iff: "user_exists db u \<longleftrightarrow> (\<exists>r\<in>set (security db). s_userid r = u)"
  by (simp add: user_exists_def list_ex_iff)

lemma db_ok_insert_idea:
  assumes "db_ok db" and "insert_idea dflt db row = Inr db1"
  shows "db_ok db1"
proof -
  from assms(2) have u: "user_exists db (userid row)"
    and db1: "db1 = db\<lparr>idea_details := idea_details db
                     @ [row\<lparr>ideaid := ideaid_seq db, createdat := d_createdat dflt,
                             updatedat := d_updatedat dflt\<rparr>],
                   ideaid_seq := ideaid_seq db + 1\<rparr>"
    by (auto simp: insert_idea_def split: if_splits)
  from assms(1) have fresh: "ideaid_seq db \<notin> ideaid ` set (idea_details db)"
    by (auto simp: db_ok_def list_all_iff)
  from assms(1) u fresh show ?thesis
    unfolding db1 db_ok_def list_all_iff idea_exists_iff user_exists_iff
    by (simp add: ball_Un) force
qed

lemma db_ok_update_idea:
  assumes "db_ok db" and "\<And>r. ideaid (f r) = ideaid r \<and> userid (f r) = userid r"
  shows "db_ok (update_idea db i f)"
proof -
  define g where "g = (\<lambda>r. if ideaid r = i then f r else r)"
  have g: "\<And>r. ideaid (g r) = ideaid r" "\<And>r. userid (g r) = userid r"
    by (simp_all add: g_def assms(2))
  have upd: "update_idea db i f = db\<lparr>idea_details := map g (idea_details db)\<rparr>"
    by (simp add: update_idea_def g_def)
  have ids: "map ideaid (map g (idea_details db)) = map ideaid (idea_details db)"
    by (simp add: g)
  have ex: "\<And>j. idea_exists (db\<lparr>idea_details := map g (idea_details db)\<rparr>) j = idea_exists db j"
    by (auto simp: idea_exists_iff g)
  have us: "\<And>u. user_exists (db\<lparr>idea_details := map g (idea_details db)\<rparr>) u = user_exists db u"
    by (simp add: user_exists_def)
  have rows: "list_all (\<lambda>r. ideaid r < ideaid_seq db \<and> user_exists db (userid r)) (map g (idea_details db))
      = list_all (\<lambda>r. ideaid r < ideaid_seq db \<and> user_exists db (userid r)) (idea_details db)"
    by (simp add: list_all_iff g)
  from assms(1) show ?thesis
    unfolding upd db_ok_def by (simp add: ids ex us rows del: map_map)
qed

lemma db_ok_delete_idea_row:
  assumes "db_ok db" and "delete_idea_row od db i = Inr db1"
  shows "db_ok db1"
proof (cases od)
  case Cascade
  with assms(2) have "db1 = db\<lparr>idea_details := filter (\<lambda>r. ideaid r \<noteq> i) (idea_details db),
                  collaborations := filter (\<lambda>c. c_ideaid c \<noteq> i) (collaborations db)\<rparr>"
    by (simp add: delete_idea_row_def)
  with assms(1) show ?thesis by (simp add: db_ok_deleted)
next
  case Restrict
  with assms(2) have db1: "db1 = db\<lparr>idea_details := filter (\<lambda>r. ideaid r \<noteq> i) (idea_details db)\<rparr>"
    and none: "\<not> (idea_exists db i \<and> list_ex (\<lambda>c. c_ideaid c = i) (collaborations db))"
    by (auto simp: delete_idea_row_def split: if_splits)
  from assms(1) have "\<forall>c\<in>set (collaborations db). idea_exists db (c_ideaid c)"
    by (simp add: db_ok_def list_all_iff)
  with none have "\<forall>c\<in>set (collaborations db). c_ideaid c \<noteq> i"
    by (auto simp: list_ex_iff)
  then have "filter (\<lambda>c. c_ideaid c \<noteq> i) (collaborations db) = collaborations db"
    by (simp add: filter_id_conv)
  then have "db1 = db\<lparr>idea_details := filter (\<lambda>r. ideaid r \<noteq> i) (idea_details db),
                  collaborations := filter (\<lambda>c. c_ideaid c \<noteq> i) (collaborations db)\<rparr>"
    by (simp add: db1)
  with assms(1) show ?thesis by (simp add: db_ok_deleted)
qed

lemma db_ok_insert_collaboration:
  assumes "db_ok db" and "insert_collaboration db i u = Inr db1"
  shows "db_ok db1"
proof -
  from assms(2) have c: "idea_exists db i" "user_exists db u" "\<not> collaborationExists db i u"
    and db1: "db1 = db\<lparr>collaborations := collaborations db
                     @ [\<lparr>collaborationid = collaborationid_seq db, c_ideaid = i, c_userid = u\<rparr>],
                   collaborationid_seq := collaborationid_seq db + 1\<rparr>"
    by (auto simp: insert_collaboration_def split: if_splits)
  from assms(1) have fresh: "collaborationid_seq db \<notin> collaborationid ` set (collaborations db)"
    by (auto simp: db_ok_def list_all_iff)
  from c(3) have new: "(i, u) \<notin> (\<lambda>c. (c_ideaid c, c_userid c)) ` set (collaborations db)"
    by (auto simp: collaborationExists_def list_ex_iff)
  from assms(1) c(1,2) fresh new show ?thesis
    unfolding db1 db_ok_def list_all_iff idea_exists_iff user_exists_iff
    by (simp add: ball_Un) force
qed

lemma handle_db_ok:
  assumes "db_ok db"
  shows "db_ok (snd (handle dflt od db userId req))"
proof (cases req)
  case (POST_addIdea body)
  with assms show ?thesis
    by (auto simp: addIdea_def split: sum.splits dest: db_ok_insert_idea)
next
  case (POST_editIdea ideaId body)
  with assms show ?thesis
    by (auto simp: editIdea_def split: sum.splits option.splits intro!: db_ok_update_idea)
next
  case (POST_deleteIdea ideaId)
  with assms show ?thesis
    by (auto simp: deleteIdea_def Let_def split: sum.splits option.splits
        dest: db_ok_delete_idea_row [OF db_ok_delete_collaborations] intro: db_ok_delete_collaborations)
next
  case (POST_addCollaborator ideaId c)
  with assms show ?thesis
    by (auto simp: addCollaborator_def split: sum.splits option.splits dest: db_ok_insert_collaboration)
next
  case (POST_removeCollaborator cid)
  with assms show ?thesis
    by (auto simp: removeCollaborator_def split: option.splits intro: db_ok_delete_collaborations)
next
  case (POST_leaveCollaboration ideaId)
  with assms show ?thesis
    by (simp add: leaveCollaboration_def db_ok_delete_collaborations)
qed

lemma index_handle_db_ok:
  assumes "db_ok db"
  shows "db_ok (snd (index_handle dflt od now db userId req))"
proof (cases req)
  case (POST_add_idea body)
  with assms show ?thesis
    by (auto simp: add_idea_def bind_def split: sum.splits dest: db_ok_insert_idea)
next
  case (POST_edit_idea ideaId body)
  with assms show ?thesis
    by (auto simp: edit_idea_def bind_def split: sum.splits option.splits intro!: db_ok_update_idea)
next
  case (POST_add_collaborator ideaId c)
  with assms show ?thesis
    by (auto simp: add_collaborator_def bind_def insert_collaboration_ignore_def
        split: sum.splits option.splits if_splits dest: db_ok_insert_collaboration)
next
  case (POST_remove_collaborator ideaId u)
  with assms show ?thesis
    by (auto simp: remove_collaborator_def split: option.splits intro: db_ok_delete_collaborations)
next
  case (POST_delete_idea ideaId)
  with assms show ?thesis
    by (auto simp: delete_idea_def split: sum.splits option.splits dest: db_ok_delete_idea_row)
qed

lemma ideas_after_update:
  assumes "r' \<in> set (idea_details (update_idea db i f))"
    and "\<And>r. ideaid (f r) = ideaid r \<and> userid (f r) = userid r"
  shows "\<exists>r\<in>set (idea_details db). ideaid r' = ideaid r \<and> userid r' = userid r"
proof -
  from assms(1) obtain r where "r \<in> set (idea_details db)" and "r' = (if ideaid r = i then f r else r)"
    by (auto simp: update_idea_def)
  with assms(2) show ?thesis
    by (cases "ideaid r = i") auto
qed

lemma ideas_after_handle:
  assumes "r' \<in> set (idea_details (snd (handle dflt od db userId req)))"
  shows "(\<exists>r\<in>set (idea_details db). ideaid r' = ideaid r \<and> userid r' = userid r)
       \<or> (ideaid r' = ideaid_seq db \<and> userid r' = userId)"
proof (cases req)
  case (POST_addIdea body)
  with assms show ?thesis
    by (auto simp: addIdea_def insert_idea_def split: if_splits sum.splits)
next
  case (POST_editIdea ideaId body)
  with assms show ?thesis
    by (auto simp: editIdea_def update_idea_def split: if_splits sum.splits option.splits)
next
  case (POST_deleteIdea ideaId)
  with assms show ?thesis
    by (auto simp: deleteIdea_def delete_idea_row_def delete_collaborations_def Let_def
        split: if_splits sum.splits option.splits on_delete.splits)
next
  case (POST_addCollaborator ideaId u)
  with assms show ?thesis
    by (auto simp: addCollaborator_def insert_collaboration_def split: if_splits sum.splits option.splits)
next
  case (POST_removeCollaborator cid)
  with assms show ?thesis
    by (auto simp: removeCollaborator_def delete_collaborations_def split: if_splits option.splits)
next
  case (POST_leaveCollaboration ideaId)
  with assms show ?thesis
    by (auto simp: leaveCollaboration_def delete_collaborations_def)
qed

lemma ideas_after_index_handle:
  assumes "r' \<in> set (idea_details (snd (index_handle dflt od now db userId req)))"
  shows "(\<exists>r\<in>set (idea_details db). ideaid r' = ideaid r \<and> userid r' = userid r)
       \<or> (ideaid r' = ideaid_seq db \<and> userid r' = userId)"
proof (cases req)
  case (POST_add_idea body)
  with assms show ?thesis
    by (auto simp: add_idea_def insert_idea_def bind_def split: if_splits sum.splits)
next
  case (POST_edit_idea ideaId body)
  show ?thesis
  proof (cases "snd (index_handle dflt od now db userId req) = db")
    case True
    with assms show ?thesis by auto
  next
    case False
    then obtain f where eq: "snd (index_handle dflt od now db userId req) = update_idea db ideaId f"
      and keeps: "\<And>r. ideaid (f r) = ideaid r \<and> userid (f r) = userid r"
      using POST_edit_idea
      by (fastforce simp: edit_idea_def bind_def split: if_splits sum.splits option.splits)
    from assms have "r' \<in> set (idea_details (update_idea db ideaId f))"
      by (simp add: eq)
    then have "\<exists>r\<in>set (idea_details db). ideaid r' = ideaid r \<and> userid r' = userid r"
      using keeps by (rule ideas_after_update)
    then show ?thesis by blast
  qed
next
  case (POST_add_collaborator ideaId u)
  with assms show ?thesis
    by (auto simp: add_collaborator_def insert_collaboration_ignore_def insert_collaboration_def bind_def
        split: if_splits sum.splits option.splits)
next
  case (POST_remove_collaborator ideaId u)
  with assms show ?thesis
    by (auto simp: remove_collaborator_def delete_collaborations_def split: if_splits option.splits)
next
  case (POST_delete_idea ideaId)
  with assms show ?thesis
    by (auto simp: delete_idea_def delete_idea_row_def split: if_splits sum.splits option.splits on_delete.splits)
qed

lemma seq_after_handle: "ideaid_seq db \<le> ideaid_seq (snd (handle dflt od db userId req))"
proof (cases req)
  case (POST_addIdea body)
  then show ?thesis
    by (auto simp: addIdea_def insert_idea_def split: if_splits sum.splits)
next
  case (POST_editIdea ideaId body)
  then show ?thesis
    by (auto simp: editIdea_def update_idea_def split: if_splits sum.splits option.splits)
next
  case (POST_deleteIdea ideaId)
  then show ?thesis
    by (auto simp: deleteIdea_def delete_idea_row_def delete_collaborations_def Let_def
        split: if_splits sum.splits option.splits on_delete.splits)
next
  case (POST_addCollaborator ideaId u)
  then show ?thesis
    by (auto simp: addCollaborator_def insert_collaboration_def split: if_splits sum.splits option.splits)
next
  case (POST_removeCollaborator cid)
  then show ?thesis
    by (auto simp: removeCollaborator_def delete_collaborations_def split: if_splits option.splits)
next
  case (POST_leaveCollaboration ideaId)
  then show ?thesis
    by (auto simp: leaveCollaboration_def delete_collaborations_def)
qed

lemma seq_after_index_handle:
  "ideaid_seq db \<le> ideaid_seq (snd (index_handle dflt od now db userId req))"
proof (cases req)
  case (POST_add_idea body)
  then show ?thesis
    by (auto simp: add_idea_def insert_idea_def bind_def split: if_splits sum.splits)
next
  case (POST_edit_idea ideaId body)
  then show ?thesis
    by (auto simp: edit_idea_def update_idea_def bind_def split: if_splits sum.splits option.splits)
next
  case (POST_add_collaborator ideaId u)
  then show ?thesis
    by (auto simp: add_collaborator_def insert_collaboration_ignore_def insert_collaboration_def bind_def
        split: if_splits sum.splits option.splits)
next
  case (POST_remove_collaborator ideaId u)
  then show ?thesis
    by (auto simp: remove_collaborator_def delete_collaborations_def split: if_splits option.splits)
next
  case (POST_delete_idea ideaId)
  then show ?thesis
    by (auto simp: delete_idea_def delete_idea_row_def split: if_splits sum.splits option.splits on_delete.splits)
qed

lemma ideas_after_run:
  assumes "r' \<in> set (idea_details (run dflt od db reqs))" and "ideaid r' < ideaid_seq db"
  shows "\<exists>r\<in>set (idea_details db). ideaid r' = ideaid r \<and> userid r' = userid r"
  using assms
proof (induction reqs arbitrary: db)
  case Nil
  then show ?case by auto
next
  case (Cons ur reqs)
  let ?db1 = "snd (handle dflt od db (fst ur) (snd ur))"
  from Cons.prems(2) seq_after_handle [of db dflt od "fst ur" "snd ur"]
  have "ideaid r' < ideaid_seq ?db1" by simp
  with Cons.IH [of ?db1] Cons.prems(1)
  obtain r1 where r1: "r1 \<in> set (idea_details ?db1)" "ideaid r' = ideaid r1" "userid r' = userid r1"
    by auto
  from ideas_after_handle [OF r1(1)] r1 Cons.prems(2) show ?case
    by auto
qed

lemma ideas_after_index_run:
  assumes "r' \<in> set (idea_details (index_run dflt od db reqs))" and "ideaid r' < ideaid_seq db"
  shows "\<exists>r\<in>set (idea_details db). ideaid r' = ideaid r \<and> userid r' = userid r"
  using assms
proof (induction reqs arbitrary: db)
  case Nil
  then show ?case by auto
next
  case (Cons nur reqs)
  let ?db1 = "snd (index_handle dflt od (fst nur) db (fst (snd nur)) (snd (snd nur)))"
  from Cons.prems(2) seq_after_index_handle [of db dflt od "fst nur" "fst (snd nur)" "snd (snd nur)"]
  have "ideaid r' < ideaid_seq ?db1" by simp
  with Cons.IH [of ?db1] Cons.prems(1)
  obtain r1 where r1: "r1 \<in> set (idea_details ?db1)" "ideaid r' = ideaid r1" "userid r' = userid r1"
    by auto
  from ideas_after_index_handle [OF r1(1)] r1 Cons.prems(2) show ?case
    by auto
qed

lemma owner_kept:
  assumes ok: "db_ok db" and r: "r \<in> set (idea_details db)"
    and r': "\<exists>r0\<in>set (idea_details db). ideaid r' = ideaid r0 \<and> userid r' = userid r0"
    and same: "ideaid r' = ideaid r"
  shows "userid r' = userid r"
proof -
  from r' obtain r0 where r0: "r0 \<in> set (idea_details db)" "ideaid r' = ideaid r0" "userid r' = userid r0"
    by auto
  from ok have "inj_on ideaid (set (idea_details db))"
    by (simp add: db_ok_def distinct_map)
  with r r0 same have "r0 = r" by (auto simp: inj_on_def)
  with r0 show ?thesis by simp
qed

lemma db_ok_seq: "db_ok db \<Longrightarrow> r \<in> set (idea_details db) \<Longrightarrow> ideaid r < ideaid_seq db"
  by (simp add: db_ok_def list_all_iff)


lemma editIdea_writes:
  assumes "first_idea db ideaId = Some idea" and "canView db idea userId"
    and "truthy (f_ideaname body)" and "truthy (f_ideadescription body)"
    and "potential_value (f_potential body) = Inr p"
  shows "editIdea db userId ideaId body
     = (Redirect IdeasPage,
        update_idea db ideaId
          (\<lambda>r. r\<lparr>ideaname := or_empty (f_ideaname body),
                 ideadescription := or_empty (f_ideadescription body),
                 marketingstrategy := or_null (f_marketingstrategy body),
                 targetcustomer := or_null (f_targetcustomer body),
                 estimatedcost := estimatedcost_value (f_estimatedcost body),
                 timeline := or_null (f_timeline body),
                 potential := p\<rparr>))"
  using assms first_idea_Some [OF assms(1)]
  by (auto simp: editIdea_def falsy_def canView_def first_collaboration_None)

lemma edit_idea_writes:
  assumes "first_idea db ideaId = Some idea" and "canView db idea userId"
    and "numeric_column (or_null (f_estimatedcost body)) = Inr cost"
    and "int4_column (or_null (f_potential body)) = Inr p"
  shows "edit_idea now db userId ideaId body
     = (Redirect IdeasPage,
        update_idea db ideaId
          (\<lambda>r. r\<lparr>ideaname := (case f_ideaname body of None \<Rightarrow> ideaname r | Some s \<Rightarrow> s),
                 ideadescription :=
                   (case f_ideadescription body of None \<Rightarrow> ideadescription r | Some s \<Rightarrow> s),
                 marketingstrategy := marketingArray (f_marketingstrategy body),
                 targetcustomer := or_null (f_targetcustomer body),
                 estimatedcost := cost,
                 timeline := or_null (f_timeline body),
                 potential := p,
                 updatedat := Some now\<rparr>))"
  using assms first_idea_Some [OF assms(1)]
  by (auto simp: edit_idea_def bind_def canView_def first_collaboration_None)


section \<open>C6: the owner of an idea\<close>

text \<open>
  C6: every idea has exactly one user id that satisfies \<open>isOwner\<close>. On tables that
  satisfy the constraints of the data model, after any list of requests of either file
  by any users, an idea that has the id of an idea of the tables before has the same
  owner. A request leaves every idea row with the id and owner of a row before it, or
  adds a row with a fresh id, owned by the session user. The update of either file
  writes the editable columns (name, description, marketing strategy, target customer,
  estimated cost, timeline, potential, and in \<^verbatim>\<open>index.js\<close> the update timestamp) and
  leaves the owner column of every row as it was.
\<close>

theorem the_owner_of_an_idea_never_changes:
  "(\<exists>!u. isOwner idea u)
   \<and> (db_ok db \<longrightarrow>
        (\<forall>r\<in>set (idea_details db). \<forall>r'\<in>set (idea_details (run dflt od db reqs)).
           ideaid r' = ideaid r \<longrightarrow> userid r' = userid r))
   \<and> (db_ok db' \<longrightarrow>
        (\<forall>r\<in>set (idea_details db'). \<forall>r'\<in>set (idea_details (index_run dflt od db' reqs')).
           ideaid r' = ideaid r \<longrightarrow> userid r' = userid r))
   \<and> (\<forall>r'\<in>set (idea_details (snd (handle dflt od db userId req))).
        (\<exists>r\<in>set (idea_details db). ideaid r' = ideaid r \<and> userid r' = userid r)
        \<or> (ideaid r' = ideaid_seq db \<and> userid r' = userId))
   \<and> (\<forall>r'\<in>set (idea_details (snd (index_handle dflt od now db' userId req'))).
        (\<exists>r\<in>set (idea_details db'). ideaid r' = ideaid r \<and> userid r' = userid r)
        \<or> (ideaid r' = ideaid_seq db' \<and> userid r' = userId))
   \<and> map userid (idea_details (snd (editIdea db userId ideaId body))) = map userid (idea_details db)
   \<and> map userid (idea_details (snd (edit_idea now db' userId ideaId body'))) = map userid (idea_details db')
   \<and> (\<forall>i p. first_idea db ideaId = Some i \<and> canView db i userId
          \<and> truthy (f_ideaname body) \<and> truthy (f_ideadescription body)
          \<and> potential_value (f_potential body) = Inr p \<longrightarrow>
        editIdea db userId ideaId body
          = (Redirect IdeasPage,
             update_idea db ideaId
               (\<lambda>r. r\<lparr>ideaname := or_empty (f_ideaname body),
                      ideadescription := or_empty (f_ideadescription body),
                      marketingstrategy := or_null (f_marketingstrategy body),
                      targetcustomer := or_null (f_targetcustomer body),
                      estimatedcost := estimatedcost_value (f_estimatedcost body),
                      timeline := or_null (f_timeline body),
                      potential := p\<rparr>)))
   \<and> (\<forall>i cost p. first_idea db' ideaId = Some i \<and> canView db' i userId
          \<and> numeric_column (or_null (f_estimatedcost body')) = Inr cost
          \<and> int4_column (or_null (f_potential body')) = Inr p \<longrightarrow>
        edit_idea now db' userId ideaId body'
          = (Redirect IdeasPage,
             update_idea db' ideaId
               (\<lambda>r. r\<lparr>ideaname := (case f_ideaname body' of None \<Rightarrow> ideaname r | Some s \<Rightarrow> s),
                      ideadescription :=
                        (case f_ideadescription body' of None \<Rightarrow> ideadescription r | Some s \<Rightarrow> s),
                      marketingstrategy := marketingArray (f_marketingstrategy body'),
                      targetcustomer := or_null (f_targetcustomer body'),
                      estimatedcost := cost,
                      timeline := or_null (f_timeline body'),
                      potential := p,
                      updatedat := Some now\<rparr>)))"
proof (intro conjI impI ballI allI)
  show "\<exists>!u. isOwner idea u"
    by (simp add: isOwner_def)
next
  fix r r' assume "db_ok db" "r \<in> set (idea_details db)" "r' \<in> set (idea_details (run dflt od db reqs))"
    "ideaid r' = ideaid r"
  then show "userid r' = userid r"
    using ideas_after_run [of r' dflt od db reqs] db_ok_seq [of db r] owner_kept [of db r r'] by simp
next
  fix r r' assume "db_ok db'" "r \<in> set (idea_details db')"
    "r' \<in> set (idea_details (index_run dflt od db' reqs'))" "ideaid r' = ideaid r"
  then show "userid r' = userid r"
    using ideas_after_index_run [of r' dflt od db' reqs'] db_ok_seq [of db' r] owner_kept [of db' r r'] by simp
next
  fix r' assume "r' \<in> set (idea_details (snd (handle dflt od db userId req)))"
  then show "(\<exists>r\<in>set (idea_details db). ideaid r' = ideaid r \<and> userid r' = userid r)
        \<or> (ideaid r' = ideaid_seq db \<and> userid r' = userId)"
    by (rule ideas_after_handle)
next
  fix r' assume "r' \<in> set (idea_details (snd (index_handle dflt od now db' userId req')))"
  then show "(\<exists>r\<in>set (idea_details db'). ideaid r' = ideaid r \<and> userid r' = userid r)
        \<or> (ideaid r' = ideaid_seq db' \<and> userid r' = userId)"
    by (rule ideas_after_index_handle)
next
  show "map userid (idea_details (snd (editIdea db userId ideaId body))) = map userid (idea_details db)"
    by (auto simp: editIdea_def update_idea_def split: sum.splits option.splits)
  show "map userid (idea_details (snd (edit_idea now db' userId ideaId body'))) = map userid (idea_details db')"
    by (auto simp: edit_idea_def update_idea_def bind_def split: sum.splits option.splits)
next
  fix i p assume "first_idea db ideaId = Some i \<and> canView db i userId
          \<and> truthy (f_ideaname body) \<and> truthy (f_ideadescription body)
          \<and> potential_value (f_potential body) = Inr p"
  then show "editIdea db userId ideaId body
          = (Redirect IdeasPage,
             update_idea db ideaId
               (\<lambda>r. r\<lparr>ideaname := or_empty (f_ideaname body),
                      ideadescription := or_empty (f_ideadescription body),
                      marketingstrategy := or_null (f_marketingstrategy body),
                      targetcustomer := or_null (f_targetcustomer body),
                      estimatedcost := estimatedcost_value (f_estimatedcost body),
                      timeline := or_null (f_timeline body),
                      potential := p\<rparr>))"
    using editIdea_writes by blast
next
  fix i cost p assume "first_idea db' ideaId = Some i \<and> canView db' i userId
          \<and> numeric_column (or_null (f_estimatedcost body')) = Inr cost
          \<and> int4_column (or_null (f_potential body')) = Inr p"
  then show "edit_idea now db' userId ideaId body'
          = (Redirect IdeasPage,
             update_idea db' ideaId
               (\<lambda>r. r\<lparr>ideaname := (case f_ideaname body' of None \<Rightarrow> ideaname r | Some s \<Rightarrow> s),
                      ideadescription :=
                        (case f_ideadescription body' of None \<Rightarrow> ideadescription r | Some s \<Rightarrow> s),
                      marketingstrategy := marketingArray (f_marketingstrategy body'),
                      targetcustomer := or_null (f_targetcustomer body'),
                      estimatedcost := cost,
                      timeline := or_null (f_timeline body'),
                      potential := p,
                      updatedat := Some now\<rparr>))"
    using edit_idea_writes by blast
qed

theorem the_owner_of_an_idea_never_changes_witness:
  "db_ok (example_db None :: string db)
   \<and> idea_details (run no_defaults Restrict (example_db None)
        [(2, POST_editIdea 1 (rename_form None)), (2, POST_deleteIdea 1),
         (2, POST_addIdea (rename_form None))])
     = [(laundromat None)\<lparr>ideaname := ''Laundrette''\<rparr>, kiosk None,
        \<lparr>ideaid = 3, userid = 2, ideaname = ''Laundrette'', ideadescription = ''Coin laundry'',
         marketingstrategy = None, targetcustomer = None, estimatedcost = Some (Num 5000),
         timeline = None, potential = Some 7, createdat = None, updatedat = None\<rparr>]
   \<and> userid ((laundromat None :: string idea)\<lparr>ideaname := ''Laundrette''\<rparr>)
       = userid (laundromat None :: string idea)"
proof -
  let ?reqs = "[(2, POST_editIdea 1 (rename_form None)), (2, POST_deleteIdea 1),
         (2, POST_addIdea (rename_form None))]"
  let ?new = "(laundromat None :: string idea)\<lparr>ideaname := ''Laundrette''\<rparr>"
  have a: "db_ok (example_db None :: string db)"
    by code_simp
  have b: "idea_details (run no_defaults Restrict (example_db None) ?reqs)
     = [?new, kiosk None,
        \<lparr>ideaid = 3, userid = 2, ideaname = ''Laundrette'', ideadescription = ''Coin laundry'',
         marketingstrategy = None, targetcustomer = None, estimatedcost = Some (Num 5000),
         timeline = None, potential = Some 7, createdat = None, updatedat = None\<rparr>]"
    by code_simp
  have c: "laundromat None \<in> set (idea_details (example_db None :: string db))"
    by code_simp
  have c': "ideaid ?new = ideaid (laundromat None :: string idea)"
    by simp
  have m: "?new \<in> set (idea_details (run no_defaults Restrict (example_db None) ?reqs))"
    unfolding b by simp
  note own = the_owner_of_an_idea_never_changes
    [THEN conjunct2, THEN conjunct1, rule_format,
      where db = "example_db None" and dflt = no_defaults and od = Restrict and reqs = ?reqs]
  have "userid ?new = userid (laundromat None :: string idea)"
    using a c m c' by (rule own)
  with a b show ?thesis by blast
qed

section \<open>C3: creating an idea\<close>

text \<open>
  What the file with \<^verbatim>\<open>/addIdea\<close> does: a request without a name or a description
  is answered with the validation message and inserts nothing; any other request whose
  potential the store accepts inserts one row, owned by the session user; an empty or
  absent estimated cost or potential is stored as null.
\<close>

lemma addIdea_validates:
  "falsy (f_ideaname body) \<or> falsy (f_ideadescription body) \<Longrightarrow>
   addIdea dflt db userId body = (Render AddIdeaPage ''Idea name and description are required'', db)"
  by (simp add: addIdea_def)

lemma addIdea_persists:
  assumes "truthy (f_ideaname body)" and "truthy (f_ideadescription body)"
    and "potential_value (f_potential body) = Inr p" and "user_exists db userId"
  shows "addIdea dflt db userId body
     = (Redirect IdeasPage,
        db\<lparr>idea_details := idea_details db @
             [\<lparr>ideaid = ideaid_seq db, userid = userId,
               ideaname = or_empty (f_ideaname body),
               ideadescription = or_empty (f_ideadescription body),
               marketingstrategy = or_null (f_marketingstrategy body),
               targetcustomer = or_null (f_targetcustomer body),
               estimatedcost = estimatedcost_value (f_estimatedcost body),
               timeline = or_null (f_timeline body),
               potential = p,
               createdat = d_createdat dflt, updatedat = d_updatedat dflt\<rparr>],
           ideaid_seq := ideaid_seq db + 1\<rparr>)"
  using assms by (simp add: addIdea_def falsy_def insert_idea_def)

lemma empty_numbers_are_null:
  "falsy v \<Longrightarrow> estimatedcost_value v = None"
  "falsy v \<Longrightarrow> potential_value v = Inr None"
  "falsy v \<Longrightarrow> numeric_column (or_null v) = Inr None"
  "falsy v \<Longrightarrow> int4_column (or_null v) = Inr None"
  by (simp_all add: falsy_def estimatedcost_value_def potential_value_def numeric_column_def
      int4_column_def or_null_def)

text \<open>
  C3 says that creating an idea with an empty name or description fails with a
  validation error and inserts no row. The handler of \<^verbatim>\<open>/addIdea\<close> does so; the handler
  of \<^verbatim>\<open>/add-idea\<close> in \<^verbatim>\<open>index.js\<close> has no such test: for the first user of the example
  tables and a form whose name is the empty string it inserts the idea with the empty
  name, where the other handler answers the same form with the validation message and
  leaves the tables as they were.
\<close>

theorem add_idea_takes_an_empty_name:
  "add_idea no_defaults (example_db None) 1 (empty_name_form Undefined)
     = (Redirect IdeasPage,
        \<lparr>security = [alice, bob],
         idea_details = [laundromat None, kiosk None,
           \<lparr>ideaid = 3, userid = 1, ideaname = [], ideadescription = ''A description'',
            marketingstrategy = None, targetcustomer = None, estimatedcost = None,
            timeline = None, potential = None, createdat = None, updatedat = None\<rparr>],
         collaborations = [shared_with_bob], ideaid_seq = 4, collaborationid_seq = 2\<rparr>)
   \<and> addIdea no_defaults (example_db None) 1 (empty_name_form None)
     = (Render AddIdeaPage ''Idea name and description are required'', example_db None)"
  by code_simp


end
